theory Spec2Isabelle
  imports Main "HOL-Library.Word" "HOL-Library.AList"
begin

section \<open>Data model\<close>

text \<open>
  Identifiers have the widths of the trace protocol: 128-bit trace ids and 64-bit span
  ids. A \<open>float64\<close> is only stored and passed on by the services (no arithmetic is done
  on it), so it is kept as its 64-bit pattern.
\<close>

type_synonym trace_id = "128 word"
type_synonym span_id = "64 word"
type_synonym float64 = "64 word"

record TraceContext =
  traceID :: trace_id
  spanID :: span_id
  sampled :: bool

datatype attr = AString string | AInt int | AFloat float64

record Span =
  span_traceID :: trace_id
  span_spanID :: span_id
  span_parentSpanID :: "span_id option"
  span_name :: string
  span_startTime :: int
  span_endTime :: "int option"
  span_attributes :: "(string \<times> attr) list"
  span_errors :: "string list"

text \<open>
  One call on a metric of the registry: \<open>WithLabelValues(ls).Inc()\<close> on the counter
  vector of that name, or \<open>WithLabelValues(ls).Observe(d)\<close> on the histogram vector.
  The observed duration is kept in nanoseconds (the source converts it to float seconds).
\<close>

datatype metric_event =
    Inc string "string list"
  | Observe string "string list" int

text \<open>
  A log record: the JSON line of \<open>loggingMiddleware\<close> (its \<open>service\<close> field is absent in
  the gateway's format string), a line of the standard \<open>log\<close> package, or a structured
  record of \<open>log/slog\<close> with its level, message and attributes in order.
\<close>

datatype log_record =
    AccessLog (al_time: int) (al_service: "string option") (al_method: string)
      (al_uri: string) (al_status: int) (al_latency: int) (al_user_agent: string)
      (al_trace_id: string)
  | StdLog string
  | SLog (sl_level: string) (sl_msg: string) (sl_attrs: "(string \<times> attr) list")

datatype json =
    JNull
  | JBool bool
  | JInt int
  | JFloat float64
  | JStr string
  | JArr "json list"
  | JObj "(string \<times> json) list"

text \<open>A response body: a JSON value, or lines of text.\<close>

datatype body = JsonBody json | TextBody "string list"

text \<open>
  What one outbound HTTP call meets, stage by stage: \<open>http.NewRequestWithContext\<close> fails,
  \<open>client.Do\<close> fails (connection error or the 10 s timeout), \<open>io.ReadAll\<close> fails,
  \<open>json.Unmarshal\<close> into a \<open>map[string]interface{}\<close> fails, or the reply is decoded
  (\<open>None\<close> is the nil map that the body \<open>null\<close> decodes to).
\<close>

datatype call_outcome =
    NewRequestFailed string
  | DoFailed string
  | ReadFailed int string
  | UnmarshalFailed int string
  | Replied int "(string \<times> json) list option"

record Order =
  order_ID :: int
  order_UserID :: int
  order_Product :: string
  order_Amount :: float64
  order_Status :: string
  order_CreateAt :: string

record User =
  user_ID :: int
  user_Name :: string
  user_Email :: string
  user_Age :: int
  user_Status :: string
  user_CreateAt :: string

record Notification =
  notif_ID :: int
  notif_Type :: string
  notif_Message :: string
  notif_Status :: string
  notif_SentAt :: string

record OrderReq =
  oreq_UserID :: int
  oreq_Product :: string
  oreq_Amount :: float64

text \<open>
  The state of one service process together with its environment. The environment is
  explicit: the clock (nanoseconds), the random source (\<open>rng\<close>, read at \<open>rng_pos\<close>), the
  id generator of the tracer, the remote peers (\<open>net\<close> gives the outcome of the n-th
  outbound call of the process, made to a URL), the process environment variables, and
  the formatting of a time as RFC 3339 text. What the process emits is recorded in order: spans (a span is
  addressed by its position in \<open>spans\<close>), metric calls, log records, and the outbound
  requests sent with their headers. The package-level variables of the services follow;
  the counters among them are Go \<open>int\<close>s, kept as unbounded integers (they only count up
  by one from small values).
\<close>

record world =
  clock :: int
  rng :: "nat \<Rightarrow> nat"
  rng_pos :: nat
  gen_trace :: "nat \<Rightarrow> trace_id"
  gen_span :: "nat \<Rightarrow> span_id"
  id_pos :: nat
  net :: "nat \<Rightarrow> string \<Rightarrow> call_outcome"
  net_pos :: nat
  getenv :: "string \<Rightarrow> string"
  format_RFC3339 :: "int \<Rightarrow> string"
  spans :: "Span list"
  metrics :: "metric_event list"
  logs :: "log_record list"
  sent :: "(string \<times> (string \<times> string) list) list"
  orders :: "Order list"
  nextOrderID :: int
  users :: "(int \<times> User) list"
  nextNotificationID :: int

text \<open>
  The tracing part of a \<open>context.Context\<close>: no span, the remote parent extracted from
  the inbound header, or a span of this process (its position in \<open>spans\<close> and its
  immutable identity).
\<close>

datatype active = NoSpan | Remote TraceContext | Local nat TraceContext

text \<open>
  The \<open>gin.Context\<close> of one request. \<open>bindOrderReq\<close>, \<open>bindUser\<close> and \<open>bindMap\<close> are what
  \<open>c.ShouldBindJSON\<close> returns for this request's body when the target is the order
  request struct, a \<open>User\<close>, or a \<open>map[string]interface{}\<close> (\<open>Inl\<close> the error text).
\<close>

record Context =
  Method :: string
  Path :: string
  FullPath :: string
  Params :: "(string \<times> string) list"
  Header :: "(string \<times> string) list"
  UserAgent :: string
  bindOrderReq :: "string + OrderReq"
  bindUser :: "string + User"
  bindMap :: "string + (string \<times> json) list"
  reqCtx :: active
  Status :: int
  Written :: "body option"

type_synonym handler = "Context \<Rightarrow> world \<Rightarrow> Context \<times> world"

section \<open>Library primitives\<close>

definition Sleep :: "int \<Rightarrow> world \<Rightarrow> world" where
  "Sleep d w = w\<lparr>clock := clock w + d\<rparr>"

definition Millisecond :: int where
  "Millisecond = 1000000"

text \<open>\<open>rand.Intn(n)\<close>; every call site passes a positive literal.\<close>

definition rand_Intn :: "nat \<Rightarrow> world \<Rightarrow> nat \<times> world" where
  "rand_Intn n w = (rng w (rng_pos w) mod n, w\<lparr>rng_pos := Suc (rng_pos w)\<rparr>)"

text \<open>
  \<open>rand.Float32() < 0.05\<close>: the draw is a 24-bit fraction \<open>k / 2^24\<close>; the comparison
  is made on the exact fraction, \<open>k / 2^24 < 1 / 20\<close>.
\<close>

definition rand_Float32_lt_005 :: "world \<Rightarrow> bool \<times> world" where
  "rand_Float32_lt_005 w =
     ((rng w (rng_pos w) mod 2 ^ 24) * 20 < 2 ^ 24, w\<lparr>rng_pos := Suc (rng_pos w)\<rparr>)"

definition c_JSON :: "int \<Rightarrow> json \<Rightarrow> Context \<Rightarrow> Context" where
  "c_JSON code obj c = c\<lparr>Status := code, Written := Some (JsonBody obj)\<rparr>"

definition counter_Inc :: "string \<Rightarrow> string list \<Rightarrow> world \<Rightarrow> world" where
  "counter_Inc nm ls w = w\<lparr>metrics := metrics w @ [Inc nm ls]\<rparr>"

text \<open>Decimal text of an integer, as \<open>%d\<close> prints it.\<close>

definition digit_char :: "nat \<Rightarrow> char" where
  "digit_char d = ''0123456789'' ! d"

fun digits :: "nat \<Rightarrow> string" where
  "digits n = (if n < 10 then [digit_char n] else digits (n div 10) @ [digit_char (n mod 10)])"

declare digits.simps [simp del]

definition Itoa :: "int \<Rightarrow> string" where
  "Itoa i = (if i < 0 then CHR ''-'' # digits (nat (- i)) else digits (nat i))"

subsection \<open>Span tracker\<close>

definition active_context :: "active \<Rightarrow> TraceContext option" where
  "active_context a = (case a of NoSpan \<Rightarrow> None | Remote tc \<Rightarrow> Some tc | Local h tc \<Rightarrow> Some tc)"

text \<open>
  Modelled from the spec: the tracer of the OpenTelemetry SDK is not part of the
  repository. \<open>Start(name, parentContext)\<close> returns a new open span whose trace id is the
  parent's (a newly generated one if there is no parent), whose span id is freshly
  generated, and whose parent span id is the parent's span id when present. Every
  service configures \<open>AlwaysSample\<close>, so the new span is sampled.
\<close>

definition tracer_Start :: "active \<Rightarrow> string \<Rightarrow> world \<Rightarrow> (active \<times> nat) \<times> world" where
  "tracer_Start parent nm w =
     (let tid = (case active_context parent of
                   None \<Rightarrow> gen_trace w (id_pos w)
                 | Some tc \<Rightarrow> traceID tc);
          sid = gen_span w (id_pos w);
          s = \<lparr>span_traceID = tid, span_spanID = sid,
               span_parentSpanID = map_option spanID (active_context parent),
               span_name = nm, span_startTime = clock w, span_endTime = None,
               span_attributes = [], span_errors = []\<rparr>;
          h = length (spans w)
      in ((Local h \<lparr>traceID = tid, spanID = sid, sampled = True\<rparr>, h),
          w\<lparr>spans := spans w @ [s], id_pos := Suc (id_pos w)\<rparr>))"

text \<open>
  Modelled from the spec: a span is mutated only while it is open; the Go calls return
  nothing, so a call on a closed or absent span leaves the state as it is.
\<close>

definition update_open :: "nat \<Rightarrow> (Span \<Rightarrow> Span) \<Rightarrow> Span list \<Rightarrow> Span list" where
  "update_open h f ss =
     (if h < length ss \<and> span_endTime (ss ! h) = None then ss[h := f (ss ! h)] else ss)"

definition span_update :: "nat \<Rightarrow> (Span \<Rightarrow> Span) \<Rightarrow> world \<Rightarrow> world" where
  "span_update h f w = w\<lparr>spans := update_open h f (spans w)\<rparr>"

definition SetAttributes :: "nat \<Rightarrow> (string \<times> attr) list \<Rightarrow> world \<Rightarrow> world" where
  "SetAttributes h kvs w = span_update h (\<lambda>s. s\<lparr>span_attributes := span_attributes s @ kvs\<rparr>) w"

definition RecordError :: "nat \<Rightarrow> string \<Rightarrow> world \<Rightarrow> world" where
  "RecordError h e w = span_update h (\<lambda>s. s\<lparr>span_errors := span_errors s @ [e]\<rparr>) w"

definition span_End :: "nat \<Rightarrow> world \<Rightarrow> world" where
  "span_End h w = span_update h (\<lambda>s. s\<lparr>span_endTime := Some (clock w)\<rparr>) w"

text \<open>
  \<open>trace.SpanFromContext(ctx)\<close> followed by a mutation: only a span of this process can
  be mutated through the context.
\<close>

definition ctx_SetAttributes :: "active \<Rightarrow> (string \<times> attr) list \<Rightarrow> world \<Rightarrow> world" where
  "ctx_SetAttributes a kvs w = (case a of Local h tc \<Rightarrow> SetAttributes h kvs w | _ \<Rightarrow> w)"

definition ctx_RecordError :: "active \<Rightarrow> string \<Rightarrow> world \<Rightarrow> world" where
  "ctx_RecordError a e w = (case a of Local h tc \<Rightarrow> RecordError h e w | _ \<Rightarrow> w)"

subsection \<open>Context propagator\<close>

text \<open>
  Modelled from the spec: the propagator is \<open>propagation.TraceContext{}\<close> of the
  OpenTelemetry library, which is not part of the repository. The carrier is a single
  text header of fixed format: a version, the trace id as 32 lowercase hex digits, the
  span id as 16 hex digits and one flag byte as 2 hex digits whose lowest bit is the
  sampling flag, delimited by \<open>-\<close>. \<open>Extract\<close> fails with \<open>MissingContext\<close> when the
  header is absent or malformed. Header keys are in the canonical form of \<open>net/http\<close>.
\<close>

datatype error = MissingContext

definition hex_digit :: "nat \<Rightarrow> char" where
  "hex_digit d = ''0123456789abcdef'' ! d"

fun to_hex :: "nat \<Rightarrow> nat \<Rightarrow> string" where
  "to_hex 0 v = []"
| "to_hex (Suc n) v = to_hex n (v div 16) @ [hex_digit (v mod 16)]"

definition hex_value :: "char \<Rightarrow> nat option" where
  "hex_value ch =
     (let k = (of_char ch :: nat) in
      if 48 \<le> k \<and> k \<le> 57 then Some (k - 48)
      else if 97 \<le> k \<and> k \<le> 102 then Some (k - 87)
      else None)"

fun parse_hex_from :: "nat \<Rightarrow> string \<Rightarrow> nat option" where
  "parse_hex_from acc [] = Some acc"
| "parse_hex_from acc (ch # cs) =
     (case hex_value ch of None \<Rightarrow> None | Some d \<Rightarrow> parse_hex_from (acc * 16 + d) cs)"

definition parse_hex :: "string \<Rightarrow> nat option" where
  "parse_hex s = parse_hex_from 0 s"

definition TraceID_String :: "trace_id \<Rightarrow> string" where
  "TraceID_String t = to_hex 32 (unat t)"

definition SpanID_String :: "span_id \<Rightarrow> string" where
  "SpanID_String s = to_hex 16 (unat s)"

definition traceparent :: "TraceContext \<Rightarrow> string" where
  "traceparent tc =
     ''00-'' @ TraceID_String (traceID tc) @ ''-'' @ SpanID_String (spanID tc) @ ''-'' @
     (if sampled tc then ''01'' else ''00'')"

definition header_Set :: "string \<Rightarrow> string \<Rightarrow> (string \<times> string) list \<Rightarrow> (string \<times> string) list" where
  "header_Set k v carrier = (k, v) # filter (\<lambda>kv. fst kv \<noteq> k) carrier"

definition header_Get :: "string \<Rightarrow> (string \<times> string) list \<Rightarrow> string option" where
  "header_Get k carrier = map_of carrier k"

definition Inject :: "TraceContext \<Rightarrow> (string \<times> string) list \<Rightarrow> (string \<times> string) list" where
  "Inject tc carrier = header_Set ''Traceparent'' (traceparent tc) carrier"

definition parse_traceparent :: "string \<Rightarrow> error + TraceContext" where
  "parse_traceparent h =
     (if length h = 55 \<and> take 3 h = ''00-'' \<and> h ! 35 = CHR ''-'' \<and> h ! 52 = CHR ''-''
      then (case parse_hex (take 32 (drop 3 h)) of
              None \<Rightarrow> Inl MissingContext
            | Some t \<Rightarrow>
               (case parse_hex (take 16 (drop 36 h)) of
                  None \<Rightarrow> Inl MissingContext
                | Some s \<Rightarrow>
                   (case parse_hex (drop 53 h) of
                      None \<Rightarrow> Inl MissingContext
                    | Some f \<Rightarrow> Inr \<lparr>traceID = of_nat t, spanID = of_nat s, sampled = odd f\<rparr>)))
      else Inl MissingContext)"

definition Extract :: "(string \<times> string) list \<Rightarrow> error + TraceContext" where
  "Extract carrier =
     (case header_Get ''Traceparent'' carrier of
        None \<Rightarrow> Inl MissingContext
      | Some h \<Rightarrow> parse_traceparent h)"

text \<open>Injecting from a \<open>context.Context\<close>: the context of its active span, if it has one.\<close>

definition ctx_Inject :: "active \<Rightarrow> (string \<times> string) list \<Rightarrow> (string \<times> string) list" where
  "ctx_Inject a carrier = (case active_context a of None \<Rightarrow> carrier | Some tc \<Rightarrow> Inject tc carrier)"

text \<open>\<open>trace.SpanContextFromContext(ctx).TraceID().String()\<close>: all zeros without a span.\<close>

definition ctx_TraceID_String :: "active \<Rightarrow> string" where
  "ctx_TraceID_String a =
     (case active_context a of None \<Rightarrow> TraceID_String 0 | Some tc \<Rightarrow> TraceID_String (traceID tc))"

subsection \<open>Outbound calls\<close>

text \<open>\<open>os.Getenv\<close> with the default the callers substitute for an empty value.\<close>

definition env_or :: "(string \<Rightarrow> string) \<Rightarrow> string \<Rightarrow> string \<Rightarrow> string" where
  "env_or env k dflt = (if env k = [] then dflt else env k)"

text \<open>The request leaves the process: it is recorded with the headers it carries.\<close>

definition send_request :: "string \<Rightarrow> (string \<times> string) list \<Rightarrow> world \<Rightarrow> world" where
  "send_request url hdr w = w\<lparr>sent := sent w @ [(url, hdr)]\<rparr>"

definition next_outcome :: "string \<Rightarrow> world \<Rightarrow> call_outcome \<times> world" where
  "next_outcome url w = (net w (net_pos w) url, w\<lparr>net_pos := Suc (net_pos w)\<rparr>)"

section \<open>Notification service\<close>

definition Notification_json :: "Notification \<Rightarrow> json" where
  "Notification_json n =
     JObj [(''id'', JInt (notif_ID n)), (''type'', JStr (notif_Type n)),
           (''message'', JStr (notif_Message n)), (''status'', JStr (notif_Status n)),
           (''sent_at'', JStr (notif_SentAt n))]"

text \<open>The send time in milliseconds: e-mail is slower than SMS, push is fastest.\<close>

definition sendTime_ms :: "string \<Rightarrow> world \<Rightarrow> nat \<times> world" where
  "sendTime_ms notificationType w =
     (if notificationType = ''email'' then (let (r, w') = rand_Intn 1000 w in (r + 500, w'))
      else if notificationType = ''sms'' then (let (r, w') = rand_Intn 300 w in (r + 100, w'))
      else if notificationType = ''push'' then (let (r, w') = rand_Intn 200 w in (r + 50, w'))
      else (let (r, w') = rand_Intn 500 w in (r + 200, w')))"

definition simulateNotificationSending :: "active \<Rightarrow> string \<Rightarrow> world \<Rightarrow> world" where
  "simulateNotificationSending ctx notificationType w =
     (let ((ctx', span), w1) = tracer_Start ctx (''send-'' @ notificationType @ ''-notification'') w;
          (ms, w2) = sendTime_ms notificationType w1;
          w3 = Sleep (int ms * Millisecond) w2;
          w4 = SetAttributes span
                 [(''notification.type'', AString notificationType),
                  (''send_duration_ms'', AInt (int ms))] w3;
          (failed, w5) = rand_Float32_lt_005 w4;
          w6 = (if failed
                then RecordError span ''notification sending failed''
                       (counter_Inc ''notifications_sent_total'' [notificationType, ''failed'']
                         (SetAttributes span [(''result'', AString ''failed'')] w5))
                else counter_Inc ''notifications_sent_total'' [notificationType, ''success'']
                       (SetAttributes span [(''result'', AString ''success'')] w5))
      in span_End span w6)"

text \<open>The message prefix of \<open>sendNotification\<close>, as its UTF-8 bytes.\<close>

definition order_created_prefix :: string where
  "order_created_prefix =
     [CHR 0xE6, CHR 0x82, CHR 0xA8, CHR 0xE7, CHR 0x9A, CHR 0x84, CHR 0xE8, CHR 0xAE, CHR 0xA2,
      CHR 0xE5, CHR 0x8D, CHR 0x95, CHR 0xE5, CHR 0xB7, CHR 0xB2, CHR 0xE5, CHR 0x88, CHR 0x9B,
      CHR 0xE5, CHR 0xBB, CHR 0xBA, CHR 0xE6, CHR 0x88, CHR 0x90, CHR 0xE5, CHR 0x8A, CHR 0x9F,
      CHR 0xEF, CHR 0xBC, CHR 0x8C, CHR 0xE8, CHR 0xAE, CHR 0xA2, CHR 0xE5, CHR 0x8D, CHR 0x95,
      CHR 0xE5, CHR 0x8F, CHR 0xB7, CHR 0xEF, CHR 0xBC, CHR 0x9A]"

definition email_sent_message :: string where
  "email_sent_message =
     [CHR 0xE9, CHR 0x82, CHR 0xAE, CHR 0xE4, CHR 0xBB, CHR 0xB6, CHR 0xE9, CHR 0x80, CHR 0x9A,
      CHR 0xE7, CHR 0x9F, CHR 0xA5, CHR 0xE5, CHR 0xB7, CHR 0xB2, CHR 0xE5, CHR 0x8F, CHR 0x91,
      CHR 0xE9, CHR 0x80, CHR 0x81]"

definition sms_sent_message :: string where
  "sms_sent_message =
     [CHR 0xE7, CHR 0x9F, CHR 0xAD, CHR 0xE4, CHR 0xBF, CHR 0xA1, CHR 0xE9, CHR 0x80, CHR 0x9A,
      CHR 0xE7, CHR 0x9F, CHR 0xA5, CHR 0xE5, CHR 0xB7, CHR 0xB2, CHR 0xE5, CHR 0x8F, CHR 0x91,
      CHR 0xE9, CHR 0x80, CHR 0x81]"

definition notificationTypes :: "string list" where
  "notificationTypes = [''email'', ''sms'', ''push'']"

definition sendNotification :: handler where
  "sendNotification c w =
     (let w1 = ctx_SetAttributes (reqCtx c) [(''operation'', AString ''send_notification'')] w;
          (i, w2) = rand_Intn (length notificationTypes) w1;
          notificationType = notificationTypes ! i;
          w3 = simulateNotificationSending (reqCtx c) notificationType w2;
          (n, w4) = rand_Intn 10000 w3;
          notification =
            \<lparr>notif_ID = nextNotificationID w4, notif_Type = notificationType,
             notif_Message = order_created_prefix @ Itoa (int n + 1000),
             notif_Status = ''sent'', notif_SentAt = format_RFC3339 w4 (clock w4)\<rparr>;
          w5 = w4\<lparr>nextNotificationID := nextNotificationID w4 + 1\<rparr>;
          w6 = ctx_SetAttributes (reqCtx c)
                 [(''notification.type'', AString notificationType),
                  (''notification.id'', AInt (notif_ID notification)),
                  (''result'', AString ''success'')] w5
      in (c_JSON 200 (Notification_json notification) c, w6))"

text \<open>\<open>sendEmail\<close> and \<open>sendSMS\<close> differ only in the type, the operation and the message.\<close>

definition sendFixed :: "string \<Rightarrow> string \<Rightarrow> string \<Rightarrow> handler" where
  "sendFixed operation notificationType message c w =
     (let w1 = ctx_SetAttributes (reqCtx c) [(''operation'', AString operation)] w;
          w2 = simulateNotificationSending (reqCtx c) notificationType w1;
          notification =
            \<lparr>notif_ID = nextNotificationID w2, notif_Type = notificationType,
             notif_Message = message,
             notif_Status = ''sent'', notif_SentAt = format_RFC3339 w2 (clock w2)\<rparr>;
          w3 = w2\<lparr>nextNotificationID := nextNotificationID w2 + 1\<rparr>;
          w4 = ctx_SetAttributes (reqCtx c)
                 [(''notification.id'', AInt (notif_ID notification)),
                  (''result'', AString ''success'')] w3
      in (c_JSON 200 (Notification_json notification) c, w4))"

definition sendEmail :: handler where
  "sendEmail = sendFixed ''send_email'' ''email'' email_sent_message"

definition sendSMS :: handler where
  "sendSMS = sendFixed ''send_sms'' ''sms'' sms_sent_message"

section \<open>Order service\<close>

definition Order_json :: "Order \<Rightarrow> json" where
  "Order_json order =
     JObj [(''id'', JInt (order_ID order)), (''user_id'', JInt (order_UserID order)),
           (''product'', JStr (order_Product order)), (''amount'', JFloat (order_Amount order)),
           (''status'', JStr (order_Status order)), (''create_at'', JStr (order_CreateAt order))]"

definition map_json :: "(string \<times> json) list option \<Rightarrow> json" where
  "map_json m = (case m of None \<Rightarrow> JNull | Some kvs \<Rightarrow> JObj kvs)"

definition user_service_url :: "(string \<Rightarrow> string) \<Rightarrow> int \<Rightarrow> string" where
  "user_service_url env userID =
     env_or env ''USER_SERVICE_URL'' ''http://localhost:8081'' @ ''/users/'' @ Itoa userID"

definition callUserService :: "active \<Rightarrow> int \<Rightarrow> world \<Rightarrow> (string + (string \<times> json) list option) \<times> world" where
  "callUserService ctx userID w =
     (let ((ctx', span), w1) = tracer_Start ctx ''call-user-service'' w;
          url = user_service_url (getenv w1) userID;
          w2 = SetAttributes span [(''http.url'', AString url), (''user.id'', AInt userID)] w1;
          (outcome, w3) = next_outcome url w2
      in case outcome of
           NewRequestFailed err \<Rightarrow> (Inl err, span_End span (RecordError span err w3))
         | DoFailed err \<Rightarrow>
             (Inl err, span_End span (RecordError span err (send_request url (ctx_Inject ctx' []) w3)))
         | ReadFailed code err \<Rightarrow>
             (Inl err, span_End span (RecordError span err (send_request url (ctx_Inject ctx' []) w3)))
         | UnmarshalFailed code err \<Rightarrow>
             (Inl err, span_End span (RecordError span err (send_request url (ctx_Inject ctx' []) w3)))
         | Replied code user \<Rightarrow>
             (Inr user,
              span_End span
                (SetAttributes span [(''http.status_code'', AInt code)]
                  (send_request url (ctx_Inject ctx' []) w3))))"

text \<open>\<open>simulateWork\<close> of the order service: a child span around 100 to 399 ms of sleep.\<close>

definition order_simulateWork :: "active \<Rightarrow> string \<Rightarrow> world \<Rightarrow> world" where
  "order_simulateWork ctx operation w =
     (let ((ctx', span), w1) = tracer_Start ctx (''simulate-'' @ operation) w;
          (r, w2) = rand_Intn 300 w1;
          w3 = Sleep (int (r + 100) * Millisecond) w2;
          w4 = SetAttributes span
                 [(''operation'', AString operation),
                  (''work_duration_ms'', AInt (int (r + 100)))] w3
      in span_End span w4)"

definition getOrders :: handler where
  "getOrders c w =
     (let w1 = ctx_SetAttributes (reqCtx c) [(''operation'', AString ''get_orders'')] w;
          w2 = order_simulateWork (reqCtx c) ''database_query'' w1;
          w3 = counter_Inc ''order_operations_total'' [''get_orders'', ''success''] w2;
          w4 = ctx_SetAttributes (reqCtx c)
                 [(''result'', AString ''success''),
                  (''orders.count'', AInt (int (length (orders w3))))] w3
      in (c_JSON 200
            (JObj [(''orders'', JArr (map Order_json (orders w4))),
                   (''total'', JInt (int (length (orders w4))))]) c,
          w4))"

text \<open>The error text of a failed user validation, as its UTF-8 bytes.\<close>

definition user_validation_failed :: string where
  "user_validation_failed =
     [CHR 0xE7, CHR 0x94, CHR 0xA8, CHR 0xE6, CHR 0x88, CHR 0xB7, CHR 0xE9, CHR 0xAA, CHR 0x8C,
      CHR 0xE8, CHR 0xAF, CHR 0x81, CHR 0xE5, CHR 0xA4, CHR 0xB1, CHR 0xE8, CHR 0xB4, CHR 0xA5]"

definition createOrder :: handler where
  "createOrder c w =
     (case bindOrderReq c of
        Inl err \<Rightarrow>
          (c_JSON 400 (JObj [(''error'', JStr err)]) c,
           counter_Inc ''order_operations_total'' [''create_order'', ''error''] w)
      | Inr orderReq \<Rightarrow>
          (let w1 = ctx_SetAttributes (reqCtx c)
                      [(''operation'', AString ''create_order''),
                       (''user.id'', AInt (oreq_UserID orderReq)),
                       (''product'', AString (oreq_Product orderReq)),
                       (''amount'', AFloat (oreq_Amount orderReq))] w;
               (res, w2) = callUserService (reqCtx c) (oreq_UserID orderReq) w1
           in case res of
                Inl err \<Rightarrow>
                  (c_JSON 400 (JObj [(''error'', JStr user_validation_failed)]) c,
                   ctx_RecordError (reqCtx c) err
                     (counter_Inc ''order_operations_total'' [''create_order'', ''error''] w2))
              | Inr user \<Rightarrow>
                  (let w3 = order_simulateWork (reqCtx c) ''order_processing'' w2;
                       newOrder =
                         \<lparr>order_ID = nextOrderID w3, order_UserID = oreq_UserID orderReq,
                          order_Product = oreq_Product orderReq,
                          order_Amount = oreq_Amount orderReq,
                          order_Status = ''processing'',
                          order_CreateAt = format_RFC3339 w3 (clock w3)\<rparr>;
                       w4 = w3\<lparr>orders := orders w3 @ [newOrder]\<rparr>;
                       w5 = w4\<lparr>nextOrderID := nextOrderID w4 + 1\<rparr>;
                       w6 = counter_Inc ''order_operations_total'' [''create_order'', ''success''] w5;
                       w7 = ctx_SetAttributes (reqCtx c)
                              [(''result'', AString ''success''),
                               (''order.id'', AInt (order_ID newOrder))] w6
                   in (c_JSON 201
                         (JObj [(''order'', Order_json newOrder), (''user'', map_json user)]) c,
                       w7))))"

text \<open>
  \<open>strconv.Atoi\<close>: an optional sign and decimal digits, within the range of a 64-bit
  \<open>int\<close>.
\<close>

definition is_digit :: "char \<Rightarrow> bool" where
  "is_digit ch = (48 \<le> (of_char ch :: nat) \<and> (of_char ch :: nat) \<le> 57)"

definition digits_value :: "string \<Rightarrow> nat" where
  "digits_value ds = foldl (\<lambda>acc ch. acc * 10 + ((of_char ch :: nat) - 48)) 0 ds"

definition Atoi :: "string \<Rightarrow> int option" where
  "Atoi s =
     (let neg = (s \<noteq> [] \<and> hd s = CHR ''-'');
          ds = (if s \<noteq> [] \<and> (hd s = CHR ''-'' \<or> hd s = CHR ''+'') then tl s else s);
          v = (if neg then - int (digits_value ds) else int (digits_value ds))
      in if ds = [] \<or> \<not> list_all is_digit ds then None
         else if - (2 ^ 63) \<le> v \<and> v < 2 ^ 63 then Some v
         else None)"

definition c_Param :: "string \<Rightarrow> Context \<Rightarrow> string" where
  "c_Param k c = (case map_of (Params c) k of None \<Rightarrow> [] | Some v \<Rightarrow> v)"

definition getOrderByID :: handler where
  "getOrderByID c w =
     (case Atoi (c_Param ''id'' c) of
        None \<Rightarrow>
          (c_JSON 400 (JObj [(''error'', JStr ''Invalid order ID'')]) c,
           counter_Inc ''order_operations_total'' [''get_order'', ''error''] w)
      | Some orderID \<Rightarrow>
          (let w1 = ctx_SetAttributes (reqCtx c)
                      [(''order.id'', AInt orderID), (''operation'', AString ''get_order'')] w;
               w2 = order_simulateWork (reqCtx c) ''database_query'' w1
           in case find (\<lambda>order. order_ID order = orderID) (orders w2) of
                Some order \<Rightarrow>
                  (c_JSON 200 (Order_json order) c,
                   ctx_SetAttributes (reqCtx c) [(''result'', AString ''success'')]
                     (counter_Inc ''order_operations_total'' [''get_order'', ''success''] w2))
              | None \<Rightarrow>
                  (c_JSON 404 (JObj [(''error'', JStr ''Order not found'')]) c,
                   ctx_SetAttributes (reqCtx c) [(''result'', AString ''not_found'')]
                     (counter_Inc ''order_operations_total'' [''get_order'', ''not_found''] w2))))"

section \<open>User service\<close>

definition User_json :: "User \<Rightarrow> json" where
  "User_json user =
     JObj [(''id'', JInt (user_ID user)), (''name'', JStr (user_Name user)),
           (''email'', JStr (user_Email user)), (''age'', JInt (user_Age user)),
           (''status'', JStr (user_Status user)), (''create_at'', JStr (user_CreateAt user))]"

text \<open>\<open>simulateWork\<close> of the user service: a child span around 50 to 549 ms of sleep.\<close>

definition user_simulateWork :: "active \<Rightarrow> string \<Rightarrow> world \<Rightarrow> world" where
  "user_simulateWork ctx operation w =
     (let ((ctx', span), w1) = tracer_Start ctx (''simulate-'' @ operation) w;
          (r, w2) = rand_Intn 500 w1;
          w3 = Sleep (int (r + 50) * Millisecond) w2;
          w4 = SetAttributes span
                 [(''operation'', AString operation),
                  (''work_duration_ms'', AInt (int (r + 50)))] w3
      in span_End span w4)"

definition getUserByID :: handler where
  "getUserByID c w =
     (case Atoi (c_Param ''id'' c) of
        None \<Rightarrow>
          (c_JSON 400 (JObj [(''error'', JStr ''Invalid user ID'')]) c,
           counter_Inc ''user_operations_total'' [''get_user'', ''error''] w)
      | Some userID \<Rightarrow>
          (let w1 = ctx_SetAttributes (reqCtx c)
                      [(''user.id'', AInt userID), (''operation'', AString ''get_user'')] w;
               w2 = user_simulateWork (reqCtx c) ''database_query'' w1
           in case map_of (users w2) userID of
                None \<Rightarrow>
                  (c_JSON 404 (JObj [(''error'', JStr ''User not found'')]) c,
                   ctx_SetAttributes (reqCtx c) [(''result'', AString ''not_found'')]
                     (counter_Inc ''user_operations_total'' [''get_user'', ''not_found''] w2))
              | Some user \<Rightarrow>
                  (let w3 = user_simulateWork (reqCtx c) ''data_processing'' w2;
                       w4 = counter_Inc ''user_operations_total'' [''get_user'', ''success''] w3;
                       w5 = ctx_SetAttributes (reqCtx c)
                              [(''result'', AString ''success''),
                               (''user.name'', AString (user_Name user)),
                               (''user.email'', AString (user_Email user))] w4
                   in (c_JSON 200 (User_json user) c, w5))))"

text \<open>
  \<open>getAllUsers\<close> ranges over the map (here in the order of the association list; Go leaves
  the order open). \<open>userList\<close> starts as a nil slice, which is encoded as \<open>null\<close>.
\<close>

definition getAllUsers :: handler where
  "getAllUsers c w =
     (let w1 = ctx_SetAttributes (reqCtx c) [(''operation'', AString ''get_all_users'')] w;
          w2 = user_simulateWork (reqCtx c) ''database_query_all'' w1;
          userList = map snd (AList.clearjunk (users w2));
          w3 = user_simulateWork (reqCtx c) ''data_processing'' w2;
          w4 = counter_Inc ''user_operations_total'' [''get_all_users'', ''success''] w3;
          w5 = ctx_SetAttributes (reqCtx c)
                 [(''result'', AString ''success''),
                  (''users.count'', AInt (int (length userList)))] w4
      in (c_JSON 200
            (JObj [(''users'', if userList = [] then JNull else JArr (map User_json userList)),
                   (''total'', JInt (int (length userList)))]) c,
          w5))"

definition createUser :: handler where
  "createUser c w =
     (case bindUser c of
        Inl err \<Rightarrow>
          (c_JSON 400 (JObj [(''error'', JStr err)]) c,
           counter_Inc ''user_operations_total'' [''create_user'', ''error''] w)
      | Inr bound \<Rightarrow>
          (let w1 = ctx_SetAttributes (reqCtx c)
                      [(''operation'', AString ''create_user''),
                       (''user.name'', AString (user_Name bound)),
                       (''user.email'', AString (user_Email bound))] w;
               newUser = bound\<lparr>user_ID := int (length (AList.clearjunk (users w1))) + 1,
                               user_CreateAt := format_RFC3339 w1 (clock w1),
                               user_Status := ''active''\<rparr>;
               w2 = user_simulateWork (reqCtx c) ''database_insert'' w1;
               w3 = w2\<lparr>users := AList.update (user_ID newUser) newUser (users w2)\<rparr>;
               w4 = counter_Inc ''user_operations_total'' [''create_user'', ''success''] w3;
               w5 = ctx_SetAttributes (reqCtx c)
                      [(''result'', AString ''success''),
                       (''user.id'', AInt (user_ID newUser))] w4
           in (c_JSON 201 (User_json newUser) c, w5)))"

section \<open>API gateway\<close>

text \<open>
  \<open>callService\<close>: a child span around one GET to a downstream service, with the span's
  context injected into the request headers. The call counts as \<open>success\<close> in
  \<open>service_calls_total\<close> for a 2xx reply and as \<open>error\<close> otherwise, but it returns an
  error only when a stage of the call itself fails.
\<close>

definition status_label :: "int \<Rightarrow> string" where
  "status_label code = (if 200 \<le> code \<and> code < 300 then ''success'' else ''error'')"

definition callService :: "active \<Rightarrow> string \<Rightarrow> string \<Rightarrow> world \<Rightarrow> (string + (string \<times> json) list option) \<times> world" where
  "callService ctx serviceName url w =
     (let ((ctx', span), w1) = tracer_Start ctx (''call-'' @ serviceName) w;
          w2 = SetAttributes span
                 [(''service.name'', AString serviceName), (''http.url'', AString url),
                  (''http.method'', AString ''GET'')] w1;
          (outcome, w3) = next_outcome url w2
      in case outcome of
           NewRequestFailed err \<Rightarrow>
             (Inl err,
              span_End span
                (counter_Inc ''service_calls_total'' [serviceName, ''error'']
                  (RecordError span err w3)))
         | DoFailed err \<Rightarrow>
             (Inl err,
              span_End span
                (counter_Inc ''service_calls_total'' [serviceName, ''error'']
                  (RecordError span err (send_request url (ctx_Inject ctx' []) w3))))
         | ReadFailed code err \<Rightarrow>
             (Inl err,
              span_End span
                (RecordError span err
                  (counter_Inc ''service_calls_total'' [serviceName, status_label code]
                    (send_request url (ctx_Inject ctx' []) w3))))
         | UnmarshalFailed code err \<Rightarrow>
             (Inl err,
              span_End span
                (RecordError span err
                  (counter_Inc ''service_calls_total'' [serviceName, status_label code]
                    (send_request url (ctx_Inject ctx' []) w3))))
         | Replied code result \<Rightarrow>
             (Inr result,
              span_End span
                (SetAttributes span [(''http.status_code'', AInt code)]
                  (counter_Inc ''service_calls_total'' [serviceName, status_label code]
                    (send_request url (ctx_Inject ctx' []) w3)))))"

definition gw_getUser :: handler where
  "gw_getUser c w =
     (let userID = c_Param ''id'' c;
          userServiceURL = env_or (getenv w) ''USER_SERVICE_URL'' ''http://localhost:8081'';
          (res, w1) = callService (reqCtx c) ''user-service'' (userServiceURL @ ''/users/'' @ userID) w
      in case res of
           Inl err \<Rightarrow> (c_JSON 500 (JObj [(''error'', JStr err)]) c, w1)
         | Inr user \<Rightarrow> (c_JSON 200 (map_json user) c, w1))"

definition log_Printf :: "string \<Rightarrow> world \<Rightarrow> world" where
  "log_Printf line w = w\<lparr>logs := logs w @ [StdLog line]\<rparr>"

text \<open>
  The composite create-order handler (\<open>POST /api/v1/orders\<close>): the order-service hop,
  then the notification-service hop, whose failure is logged and does not change the
  status of the response.
\<close>

definition gw_createOrder :: handler where
  "gw_createOrder c w =
     (case bindMap c of
        Inl err \<Rightarrow> (c_JSON 400 (JObj [(''error'', JStr err)]) c, w)
      | Inr orderReq \<Rightarrow>
          (let orderServiceURL = env_or (getenv w) ''ORDER_SERVICE_URL'' ''http://localhost:8082'';
               (res, w1) = callService (reqCtx c) ''order-service'' (orderServiceURL @ ''/orders'') w
           in case res of
                Inl err \<Rightarrow> (c_JSON 500 (JObj [(''error'', JStr err)]) c, w1)
              | Inr order \<Rightarrow>
                  (let notificationServiceURL =
                         env_or (getenv w1) ''NOTIFICATION_SERVICE_URL'' ''http://localhost:8083'';
                       (res2, w2) = callService (reqCtx c) ''notification-service''
                                      (notificationServiceURL @ ''/notify'') w1;
                       (notification, w3) =
                         (case res2 of
                            Inl err \<Rightarrow> (None, log_Printf (''Failed to send notification: '' @ err) w2)
                          | Inr n \<Rightarrow> (n, w2))
                   in (c_JSON 200
                         (JObj [(''order'', map_json order),
                                (''notification'', map_json notification)]) c,
                       w3))))"

definition gw_getOrders :: handler where
  "gw_getOrders c w =
     (let orderServiceURL = env_or (getenv w) ''ORDER_SERVICE_URL'' ''http://localhost:8082'';
          (res, w1) = callService (reqCtx c) ''order-service'' (orderServiceURL @ ''/orders'') w
      in case res of
           Inl err \<Rightarrow> (c_JSON 500 (JObj [(''error'', JStr err)]) c, w1)
         | Inr result \<Rightarrow> (c_JSON 200 (map_json result) c, w1))"

section \<open>Middleware and routes\<close>

text \<open>
  \<open>prometheusMiddleware\<close> is the same function in the four services: the time is taken,
  the rest of the chain runs (\<open>c.Next()\<close>), and then the request counter and the duration
  histogram are fed with the method, the route template (\<open>c.FullPath()\<close>) and, for the
  counter, the status code printed in decimal.
\<close>

definition prometheusMiddleware :: "handler \<Rightarrow> handler" where
  "prometheusMiddleware next c w =
     (let start = clock w;
          (c', w') = next c w;
          duration = clock w' - start;
          statusCode = Itoa (Status c')
      in (c',
          w'\<lparr>metrics := metrics w' @
                [Inc ''http_requests_total'' [Method c', FullPath c', statusCode],
                 Observe ''http_request_duration_seconds'' [Method c', FullPath c'] duration]\<rparr>))"

text \<open>
  \<open>loggingMiddleware\<close>: \<open>gin.LoggerWithConfig\<close> runs the rest of the chain and then writes
  the line made by the formatter, which reads the trace id from the context of the
  request. The \<open>service\<close> field is the one written in the format string of the service.
\<close>

definition loggingMiddleware :: "string option \<Rightarrow> handler \<Rightarrow> handler" where
  "loggingMiddleware service next c w =
     (let start = clock w;
          (c', w') = next c w;
          line = AccessLog (clock w') service (Method c') (Path c') (Status c')
                   (clock w' - start) (UserAgent c') (ctx_TraceID_String (reqCtx c'))
      in (c', w'\<lparr>logs := logs w' @ [line]\<rparr>))"

text \<open>
  Modelled from the spec: \<open>otelgin.Middleware\<close> is not part of the repository. The
  propagator extracts the inbound context (a missing or malformed header gives a fresh
  root context instead of aborting the request), the root span is opened under it and
  bound to the context of the request, the rest of the chain runs, and the root span is
  closed.
\<close>

definition otelgin_Middleware :: "string \<Rightarrow> handler \<Rightarrow> handler" where
  "otelgin_Middleware service next c w =
     (let parent = (case Extract (Header c) of Inl e \<Rightarrow> NoSpan | Inr tc \<Rightarrow> Remote tc);
          ((ctx, span), w1) = tracer_Start parent (FullPath c) w;
          (c', w2) = next (c\<lparr>reqCtx := ctx\<rparr>) w1;
          w3 = SetAttributes span [(''http.status_code'', AInt (Status c'))] w2
      in (c'\<lparr>reqCtx := reqCtx c\<rparr>, span_End span w3))"

datatype service = Gateway | UserService | OrderService | NotificationService

definition service_name :: "service \<Rightarrow> string" where
  "service_name svc =
     (case svc of Gateway \<Rightarrow> ''api-gateway'' | UserService \<Rightarrow> ''user-service''
      | OrderService \<Rightarrow> ''order-service'' | NotificationService \<Rightarrow> ''notification-service'')"

text \<open>The \<open>service\<close> field of the access log: the gateway's format string has none.\<close>

definition log_service :: "service \<Rightarrow> string option" where
  "log_service svc = (case svc of Gateway \<Rightarrow> None | _ \<Rightarrow> Some (service_name svc))"

definition health :: "service \<Rightarrow> handler" where
  "health svc c w =
     (c_JSON 200 (JObj [(''status'', JStr ''healthy''), (''service'', JStr (service_name svc))]) c, w)"

subsection \<open>The metric registry and its exposition\<close>

datatype metric_kind = Counter | Histogram

record collector =
  col_name :: string
  col_help :: string
  col_kind :: metric_kind
  col_labels :: "string list"

definition httpRequestsTotal :: collector where
  "httpRequestsTotal =
     \<lparr>col_name = ''http_requests_total'', col_help = ''Total number of HTTP requests'',
      col_kind = Counter, col_labels = [''method'', ''endpoint'', ''status_code'']\<rparr>"

definition httpRequestDuration :: collector where
  "httpRequestDuration =
     \<lparr>col_name = ''http_request_duration_seconds'',
      col_help = ''Duration of HTTP requests in seconds'',
      col_kind = Histogram, col_labels = [''method'', ''endpoint'']\<rparr>"

definition userOperations :: collector where
  "userOperations =
     \<lparr>col_name = ''user_operations_total'', col_help = ''Total number of user operations'',
      col_kind = Counter, col_labels = [''operation'', ''status'']\<rparr>"

definition orderOperations :: collector where
  "orderOperations =
     \<lparr>col_name = ''order_operations_total'', col_help = ''Total number of order operations'',
      col_kind = Counter, col_labels = [''operation'', ''status'']\<rparr>"

definition notificationsSent :: collector where
  "notificationsSent =
     \<lparr>col_name = ''notifications_sent_total'',
      col_help = ''Total number of notifications sent'',
      col_kind = Counter, col_labels = [''type'', ''status'']\<rparr>"

definition serviceCalls :: collector where
  "serviceCalls =
     \<lparr>col_name = ''service_calls_total'', col_help = ''Total number of service calls'',
      col_kind = Counter, col_labels = [''service'', ''status'']\<rparr>"

text \<open>What \<open>init()\<close> registers in each service.\<close>

definition domain_collector :: "service \<Rightarrow> collector" where
  "domain_collector svc =
     (case svc of Gateway \<Rightarrow> serviceCalls | UserService \<Rightarrow> userOperations
      | OrderService \<Rightarrow> orderOperations | NotificationService \<Rightarrow> notificationsSent)"

definition registry :: "service \<Rightarrow> collector list" where
  "registry svc = [httpRequestsTotal, httpRequestDuration, domain_collector svc]"

definition event_name :: "metric_event \<Rightarrow> string" where
  "event_name e = (case e of Inc nm ls \<Rightarrow> nm | Observe nm ls d \<Rightarrow> nm)"

definition event_labels :: "metric_event \<Rightarrow> string list" where
  "event_labels e = (case e of Inc nm ls \<Rightarrow> ls | Observe nm ls d \<Rightarrow> ls)"

definition event_value :: "metric_event \<Rightarrow> int" where
  "event_value e = (case e of Inc nm ls \<Rightarrow> 1 | Observe nm ls d \<Rightarrow> d)"

definition kind_text :: "metric_kind \<Rightarrow> string" where
  "kind_text k = (case k of Counter \<Rightarrow> ''counter'' | Histogram \<Rightarrow> ''histogram'')"

fun strings_Join :: "string \<Rightarrow> string list \<Rightarrow> string" where
  "strings_Join sep [] = []"
| "strings_Join sep [x] = x"
| "strings_Join sep (x # y # ys) = x @ sep @ strings_Join sep (y # ys)"

definition label_text :: "string list \<Rightarrow> string list \<Rightarrow> string" where
  "label_text names vals =
     ''{'' @ strings_Join '','' (map (\<lambda>(n, v). n @ ''='' @ [CHR 0x22] @ v @ [CHR 0x22]) (zip names vals)) @ ''}''"

text \<open>
  Modelled from the spec: \<open>promhttp.Handler()\<close> is not part of the repository. It answers
  with a text exposition of all registered counters and histograms: for each registered
  collector its \<open>HELP\<close> and \<open>TYPE\<close> lines, then one sample per label tuple recorded so far
  (the count of a counter; the count and the sum, in nanoseconds, of a histogram).
\<close>

definition sample_lines :: "collector \<Rightarrow> metric_event list \<Rightarrow> string list \<Rightarrow> string list" where
  "sample_lines col evs ls =
     (let mine = filter (\<lambda>e. event_name e = col_name col \<and> event_labels e = ls) evs
      in case col_kind col of
           Counter \<Rightarrow>
             [col_name col @ label_text (col_labels col) ls @ '' '' @ Itoa (int (length mine))]
         | Histogram \<Rightarrow>
             [col_name col @ ''_sum'' @ label_text (col_labels col) ls @ '' '' @
                Itoa (sum_list (map event_value mine)),
              col_name col @ ''_count'' @ label_text (col_labels col) ls @ '' '' @
                Itoa (int (length mine))])"

definition type_line :: "collector \<Rightarrow> string" where
  "type_line col = ''# TYPE '' @ col_name col @ '' '' @ kind_text (col_kind col)"

definition family_lines :: "metric_event list \<Rightarrow> collector \<Rightarrow> string list" where
  "family_lines evs col =
     [''# HELP '' @ col_name col @ '' '' @ col_help col, type_line col] @
     concat (map (sample_lines col evs)
       (remdups (map event_labels (filter (\<lambda>e. event_name e = col_name col) evs))))"

definition exposition :: "collector list \<Rightarrow> metric_event list \<Rightarrow> string list" where
  "exposition reg evs = concat (map (family_lines evs) reg)"

definition metrics_handler :: "service \<Rightarrow> handler" where
  "metrics_handler svc c w =
     (c\<lparr>Status := 200, Written := Some (TextBody (exposition (registry svc) (metrics w)))\<rparr>, w)"

text \<open>The routes registered in \<open>main\<close>: method, route template, handler.\<close>

definition routes :: "service \<Rightarrow> (string \<times> string \<times> handler) list" where
  "routes svc =
     [(''GET'', ''/health'', health svc), (''GET'', ''/metrics'', metrics_handler svc)] @
     (case svc of
        Gateway \<Rightarrow>
          [(''GET'', ''/api/v1/users/:id'', gw_getUser),
           (''POST'', ''/api/v1/orders'', gw_createOrder),
           (''GET'', ''/api/v1/orders'', gw_getOrders)]
      | UserService \<Rightarrow>
          [(''GET'', ''/users/:id'', getUserByID),
           (''GET'', ''/users'', getAllUsers),
           (''POST'', ''/users'', createUser)]
      | OrderService \<Rightarrow>
          [(''GET'', ''/orders'', getOrders),
           (''POST'', ''/orders'', createOrder),
           (''GET'', ''/orders/:id'', getOrderByID)]
      | NotificationService \<Rightarrow>
          [(''GET'', ''/notify'', sendNotification),
           (''POST'', ''/email'', sendEmail),
           (''POST'', ''/sms'', sendSMS)])"

text \<open>
  The chain installed by \<open>r.Use\<close>, outermost first: the tracing middleware, the metric
  middleware, the logging middleware, then the handler of the route. (\<open>gin.Recovery\<close>
  stands before them; no handler of the model panics.)
\<close>

definition serve :: "service \<Rightarrow> handler \<Rightarrow> handler" where
  "serve svc h =
     otelgin_Middleware (service_name svc)
       (prometheusMiddleware (loggingMiddleware (log_service svc) h))"

text \<open>A request as the router hands it to the chain of a matched route.\<close>

definition routed :: "service \<Rightarrow> string \<times> string \<times> handler \<Rightarrow> Context \<Rightarrow> bool" where
  "routed svc r c = (r \<in> set (routes svc) \<and> Method c = fst r \<and> FullPath c = fst (snd r))"

text \<open>
  What gin does with a request, read off the context the router made of it:
  \<open>c.FullPath()\<close> is the template of the matched route and is empty when no route
  matched. In that case gin sets the status to 404 and runs the chain installed by
  \<open>r.Use\<close> with no handler at its end, then writes the default body; \<open>noRoute\<close> stands for
  that end of the chain. (The router is library code; no service calls \<open>r.NoRoute\<close> or
  \<open>r.NoMethod\<close>, so a method without a route is answered the same way.)
\<close>

definition noRoute :: handler where
  "noRoute c w = (c\<lparr>Status := 404, Written := Some (TextBody [''404 page not found''])\<rparr>, w)"

definition handle :: "service \<Rightarrow> handler" where
  "handle svc c w =
     (case find (\<lambda>r. fst r = Method c \<and> fst (snd r) = FullPath c) (routes svc) of
        Some r \<Rightarrow> serve svc (snd (snd r)) c w
      | None \<Rightarrow> serve svc noRoute c w)"

section \<open>The logging demo application\<close>

definition serviceName :: string where
  "serviceName = ''my-go-filebeat-app''"

definition serviceVersion :: string where
  "serviceVersion = ''1.0.0''"

text \<open>Lowercase hexadecimal text of a number, as \<open>%x\<close> prints it.\<close>

fun hex_of_nat :: "nat \<Rightarrow> string" where
  "hex_of_nat n = (if n < 16 then [hex_digit n] else hex_of_nat (n div 16) @ [hex_digit (n mod 16)])"

declare hex_of_nat.simps [simp del]

text \<open>\<open>rand.Int63n(n)\<close> panics unless \<open>n\<close> is positive; \<open>None\<close> is the panic.\<close>

definition rand_Int63n :: "int \<Rightarrow> world \<Rightarrow> (nat \<times> world) option" where
  "rand_Int63n n w =
     (if n \<le> 0 then None
      else Some (rng w (rng_pos w) mod nat n, w\<lparr>rng_pos := Suc (rng_pos w)\<rparr>))"

text \<open>
  \<open>getMockTraceID\<close> takes the context and does not read it: the trace id is drawn from
  the random source, bounded by the current time in nanoseconds.
\<close>

definition getMockTraceID :: "active \<Rightarrow> world \<Rightarrow> (string \<times> world) option" where
  "getMockTraceID ctx w =
     (case rand_Int63n (clock w) w of
        None \<Rightarrow> None
      | Some (n, w') \<Rightarrow> Some (''trace-'' @ hex_of_nat n, w'))"

text \<open>
  The base logger of \<open>InitLogger\<close> carries the service identity; \<open>With\<close> appends
  attributes; a log call appends its own and writes the record. Both levels used by the
  handler pass the minimum level (info, or debug when \<open>LOG_LEVEL=debug\<close>).
\<close>

definition baseLogger :: "(string \<times> attr) list" where
  "baseLogger =
     [(''service_name'', AString serviceName), (''service_version'', AString serviceVersion)]"

definition logger_With :: "(string \<times> attr) list \<Rightarrow> (string \<times> attr) list \<Rightarrow> (string \<times> attr) list" where
  "logger_With logger args = logger @ args"

definition logger_Log :: "(string \<times> attr) list \<Rightarrow> string \<Rightarrow> string \<Rightarrow> (string \<times> attr) list \<Rightarrow> world \<Rightarrow> world" where
  "logger_Log logger level msg args w = w\<lparr>logs := logs w @ [SLog level msg (logger @ args)]\<rparr>"

definition Header_Get :: "string \<Rightarrow> Context \<Rightarrow> string" where
  "Header_Get k c = (case header_Get k (Header c) of None \<Rightarrow> [] | Some v \<Rightarrow> v)"

text \<open>
  The handler of \<open>/hello\<close>. Header keys are in canonical form. \<open>None\<close> is a panic of the
  handler (from \<open>rand.Int63n\<close>).
\<close>

definition hello :: "Context \<Rightarrow> world \<Rightarrow> (Context \<times> world) option" where
  "hello r w =
     (case getMockTraceID (reqCtx r) w of
        None \<Rightarrow> None
      | Some (traceId, w1) \<Rightarrow>
         (case (if Header_Get ''X-Request-Id'' r = []
                then (case rand_Int63n (clock w1) w1 of
                        None \<Rightarrow> None
                      | Some (n, w') \<Rightarrow> Some (''req-'' @ hex_of_nat n, w'))
                else Some (Header_Get ''X-Request-Id'' r, w1)) of
            None \<Rightarrow> None
          | Some (requestID, w2) \<Rightarrow>
             (let reqLogger = logger_With baseLogger
                    [(''trace_id'', AString traceId), (''request_id'', AString requestID),
                     (''http_method'', AString (Method r)), (''http_path'', AString (Path r))];
                  w3 = logger_Log reqLogger ''INFO'' ''Received request for /hello.'' [] w2;
                  (p, w4) = rand_Intn 100 w3;
                  processingTime = int (p + 20) * Millisecond;
                  w5 = Sleep processingTime w4;
                  (k, w6) = rand_Intn 10 w5
              in if k < 2
                 then Some (r\<lparr>Status := 500, Written := Some (TextBody [''Internal Server Error''])\<rparr>,
                            logger_Log reqLogger ''ERROR'' ''Failed to process /hello request.''
                              [(''error'', AString ''simulated internal error processing hello request''),
                               (''processing_time_ms'', AInt processingTime)] w6)
                 else Some (r\<lparr>Status := 200, Written := Some (TextBody [''Hello Gopher!''])\<rparr>,
                            logger_Log reqLogger ''INFO'' ''Successfully processed /hello request.''
                              [(''processing_time_ms'', AInt processingTime),
                               (''response_payload'', AString ''Hello Gopher!'')] w6))))"

section \<open>Reading the signals\<close>

definition json_field :: "string \<Rightarrow> json \<Rightarrow> json option" where
  "json_field k j = (case j of JObj kvs \<Rightarrow> map_of kvs k | _ \<Rightarrow> None)"

text \<open>A field of the JSON object written as the response.\<close>

definition response_field :: "string \<Rightarrow> Context \<Rightarrow> json option" where
  "response_field k c =
     (case Written c of Some (JsonBody j) \<Rightarrow> json_field k j | _ \<Rightarrow> None)"

text \<open>
  What an outbound call returns for an outcome: the error of the stage that failed, or
  the decoded reply whatever its status code.
\<close>

definition call_result :: "call_outcome \<Rightarrow> string + (string \<times> json) list option" where
  "call_result outcome =
     (case outcome of
        NewRequestFailed err \<Rightarrow> Inl err
      | DoFailed err \<Rightarrow> Inl err
      | ReadFailed code err \<Rightarrow> Inl err
      | UnmarshalFailed code err \<Rightarrow> Inl err
      | Replied code result \<Rightarrow> Inr result)"

definition call_error :: "call_outcome \<Rightarrow> string option" where
  "call_error outcome = (case call_result outcome of Inl err \<Rightarrow> Some err | Inr result \<Rightarrow> None)"


text \<open>The URLs the gateway's create-order handler calls.\<close>

definition orders_url :: "(string \<Rightarrow> string) \<Rightarrow> string" where
  "orders_url env = env_or env ''ORDER_SERVICE_URL'' ''http://localhost:8082'' @ ''/orders''"

definition notify_url :: "(string \<Rightarrow> string) \<Rightarrow> string" where
  "notify_url env = env_or env ''NOTIFICATION_SERVICE_URL'' ''http://localhost:8083'' @ ''/notify''"

text \<open>What the process emitted between two states.\<close>

definition new_spans :: "world \<Rightarrow> world \<Rightarrow> Span list" where
  "new_spans w w' = drop (length (spans w)) (spans w')"

definition new_metrics :: "world \<Rightarrow> world \<Rightarrow> metric_event list" where
  "new_metrics w w' = drop (length (metrics w)) (metrics w')"

definition new_logs :: "world \<Rightarrow> world \<Rightarrow> log_record list" where
  "new_logs w w' = drop (length (logs w)) (logs w')"


text \<open>The trace id, the request id and the service identity a log record carries.\<close>

definition attr_text :: "(string \<times> attr) list \<Rightarrow> string \<Rightarrow> string option" where
  "attr_text kvs k = (case map_of kvs k of Some (AString v) \<Rightarrow> Some v | _ \<Rightarrow> None)"

definition log_trace_id :: "log_record \<Rightarrow> string option" where
  "log_trace_id r =
     (case r of
        AccessLog t svc m u st lat ua tid \<Rightarrow> Some tid
      | StdLog line \<Rightarrow> None
      | SLog lvl msg kvs \<Rightarrow> attr_text kvs ''trace_id'')"

definition log_request_id :: "log_record \<Rightarrow> string option" where
  "log_request_id r =
     (case r of
        AccessLog t svc m u st lat ua tid \<Rightarrow> None
      | StdLog line \<Rightarrow> None
      | SLog lvl msg kvs \<Rightarrow> attr_text kvs ''request_id'')"

definition log_service_identity :: "log_record \<Rightarrow> string option" where
  "log_service_identity r =
     (case r of
        AccessLog t svc m u st lat ua tid \<Rightarrow> svc
      | StdLog line \<Rightarrow> None
      | SLog lvl msg kvs \<Rightarrow> attr_text kvs ''service_name'')"

text \<open>
  The inbound context of a request and the trace the request belongs to: the trace of
  a well-formed inbound header, or else the trace id generated next.
\<close>

definition inbound :: "Context \<Rightarrow> active" where
  "inbound c = (case Extract (Header c) of Inl e \<Rightarrow> NoSpan | Inr tc \<Rightarrow> Remote tc)"

definition request_trace :: "Context \<Rightarrow> world \<Rightarrow> trace_id" where
  "request_trace c w =
     (case Extract (Header c) of Inl e \<Rightarrow> gen_trace w (id_pos w) | Inr tc \<Rightarrow> traceID tc)"

definition is_std :: "log_record \<Rightarrow> bool" where
  "is_std r = (case r of StdLog line \<Rightarrow> True | _ \<Rightarrow> False)"

text \<open>
  The enumerations of the label values. The spec's outcome enumeration is
  \<open>outcome_enum\<close>. \<open>label_values\<close> gives, for a service and a label name, the values the
  code of the service writes under that label on a registered route: the methods and the
  templates of its routes, the status codes its handlers write, and the literals passed
  to \<open>WithLabelValues\<close>. \<open>domain_events\<close> lists the calls the handlers of a service make
  on its domain counter.
\<close>

definition outcome_enum :: "string list" where
  "outcome_enum = [''success'', ''error'', ''not_found'']"

definition statuses :: "int list" where
  "statuses = [200, 201, 400, 404, 500]"

definition domain_events :: "service \<Rightarrow> metric_event list" where
  "domain_events svc =
     (case svc of
        Gateway \<Rightarrow>
          concat (map (\<lambda>s. [Inc ''service_calls_total'' [s, ''success''],
                             Inc ''service_calls_total'' [s, ''error'']])
            [''user-service'', ''order-service'', ''notification-service''])
      | UserService \<Rightarrow>
          map (Inc ''user_operations_total'')
            [[''get_user'', ''error''], [''get_user'', ''not_found''], [''get_user'', ''success''],
             [''get_all_users'', ''success''],
             [''create_user'', ''error''], [''create_user'', ''success'']]
      | OrderService \<Rightarrow>
          map (Inc ''order_operations_total'')
            [[''get_orders'', ''success''],
             [''create_order'', ''error''], [''create_order'', ''success''],
             [''get_order'', ''error''], [''get_order'', ''success''], [''get_order'', ''not_found'']]
      | NotificationService \<Rightarrow>
          concat (map (\<lambda>t. [Inc ''notifications_sent_total'' [t, ''failed''],
                             Inc ''notifications_sent_total'' [t, ''success'']])
            notificationTypes))"

definition outcomes :: "service \<Rightarrow> string list" where
  "outcomes svc =
     (case svc of
        Gateway \<Rightarrow> [''success'', ''error'']
      | UserService \<Rightarrow> [''success'', ''error'', ''not_found'']
      | OrderService \<Rightarrow> [''success'', ''error'', ''not_found'']
      | NotificationService \<Rightarrow> [''success'', ''failed''])"

definition operations :: "service \<Rightarrow> string list" where
  "operations svc =
     (case svc of
        UserService \<Rightarrow> [''get_user'', ''get_all_users'', ''create_user'']
      | OrderService \<Rightarrow> [''get_orders'', ''create_order'', ''get_order'']
      | _ \<Rightarrow> [])"

definition label_values :: "service \<Rightarrow> string \<Rightarrow> string list" where
  "label_values svc k =
     (if k = ''method'' then [''GET'', ''POST'']
      else if k = ''endpoint'' then map (\<lambda>r. fst (snd r)) (routes svc)
      else if k = ''status_code'' then map Itoa statuses
      else if k = ''operation'' then operations svc
      else if k = ''service'' then [''user-service'', ''order-service'', ''notification-service'']
      else if k = ''type'' then notificationTypes
      else if k = ''status'' then outcomes svc
      else [])"

text \<open>
  A metric call is within the enumerations: it is made on a collector registered in the
  service, with one value for each label of the collector, each among the values of that
  label.
\<close>

definition labelled :: "service \<Rightarrow> metric_event \<Rightarrow> bool" where
  "labelled svc e =
     list_ex
       (\<lambda>col. col_name col = event_name e \<and>
              length (col_labels col) = length (event_labels e) \<and>
              list_all (\<lambda>(k, v). v \<in> set (label_values svc k))
                (zip (col_labels col) (event_labels e)))
       (registry svc)"

text \<open>
  In \<open>sendNotification\<close> the random source is read four times: the notification type,
  the send time, the failure test, the order number of the message.
\<close>

text \<open>The send time in milliseconds that \<open>sendTime_ms\<close> makes of a draw.\<close>

definition send_ms :: "string \<Rightarrow> nat \<Rightarrow> nat" where
  "send_ms ty r =
     (if ty = ''email'' then r mod 1000 + 500
      else if ty = ''sms'' then r mod 300 + 100
      else if ty = ''push'' then r mod 200 + 50
      else r mod 500 + 200)"

definition notify_type :: "world \<Rightarrow> string" where
  "notify_type w = notificationTypes ! (rng w (rng_pos w) mod length notificationTypes)"

definition notify_send_failed :: "world \<Rightarrow> bool" where
  "notify_send_failed w = ((rng w (rng_pos w + 2) mod 2 ^ 24) * 20 < 2 ^ 24)"

subsection \<open>What a request emits\<close>

text \<open>The identity of a span: what no operation on the span changes.\<close>

definition ident :: "Span \<Rightarrow> trace_id \<times> span_id \<times> span_id option \<times> string" where
  "ident s = (span_traceID s, span_spanID s, span_parentSpanID s, span_name s)"

definition emits :: "trace_id \<Rightarrow> (metric_event \<Rightarrow> bool) \<Rightarrow> (log_record \<Rightarrow> bool) \<Rightarrow> world \<Rightarrow> world \<Rightarrow> bool" where
  "emits T M L w w' \<longleftrightarrow>
     (\<exists>ts. map ident (spans w') = map ident (spans w) @ ts \<and> list_all (\<lambda>i. fst i = T) ts) \<and>
     (\<exists>es. metrics w' = metrics w @ es \<and> list_all M es) \<and>
     (\<exists>ls. logs w' = logs w @ ls \<and> list_all L ls)"

text \<open>A handler answers a request: it writes a status of the code and a body, nothing else.\<close>

definition answers :: "Context \<Rightarrow> Context \<Rightarrow> bool" where
  "answers c c' \<longleftrightarrow> (\<exists>s b. c' = c\<lparr>Status := s, Written := Some b\<rparr> \<and> s \<in> set statuses)"

definition handles :: "trace_id \<Rightarrow> (metric_event \<Rightarrow> bool) \<Rightarrow> (log_record \<Rightarrow> bool) \<Rightarrow> Context \<Rightarrow> world \<Rightarrow> Context \<times> world \<Rightarrow> bool" where
  "handles T M L c w r \<longleftrightarrow> answers c (fst r) \<and> emits T M L w (snd r)"

text \<open>The calls on the domain counter of a service.\<close>

definition domain_event :: "service \<Rightarrow> metric_event \<Rightarrow> bool" where
  "domain_event svc e \<longleftrightarrow> e \<in> set (domain_events svc)"

text \<open>The root span the tracing middleware opens for a request, and the state it leaves.\<close>

definition root_ctx :: "Context \<Rightarrow> world \<Rightarrow> active" where
  "root_ctx c w = fst (fst (tracer_Start (inbound c) (FullPath c) w))"

definition root_world :: "Context \<Rightarrow> world \<Rightarrow> world" where
  "root_world c w = snd (tracer_Start (inbound c) (FullPath c) w)"

definition log_service_version :: "log_record \<Rightarrow> string option" where
  "log_service_version r =
     (case r of SLog lvl msg kvs \<Rightarrow> attr_text kvs ''service_version'' | _ \<Rightarrow> None)"

text \<open>The trace id and the request id the \<open>/hello\<close> handler gives a request.\<close>

definition hello_trace_id :: "world \<Rightarrow> string" where
  "hello_trace_id w = ''trace-'' @ hex_of_nat (rng w (rng_pos w) mod nat (clock w))"

definition hello_request_id :: "Context \<Rightarrow> world \<Rightarrow> string" where
  "hello_request_id r w =
     (if Header_Get ''X-Request-Id'' r = []
      then ''req-'' @ hex_of_nat (rng w (Suc (rng_pos w)) mod nat (clock w))
      else Header_Get ''X-Request-Id'' r)"

section \<open>Example inputs\<close>

definition world0 :: world where
  "world0 =
     \<lparr>clock = 1700000000000000000, rng = (\<lambda>n. 0), rng_pos = 0,
      gen_trace = (\<lambda>n. of_nat (n + 1)), gen_span = (\<lambda>n. of_nat (n + 1)), id_pos = 0,
      net = (\<lambda>n url. DoFailed ''connection refused''), net_pos = 0,
      getenv = (\<lambda>k. []), format_RFC3339 = (\<lambda>t. ''2023-11-14T22:13:20Z''),
      spans = [], metrics = [], logs = [], sent = [],
      orders = [], nextOrderID = 3, users = [], nextNotificationID = 1\<rparr>"

definition orderReq0 :: OrderReq where
  "orderReq0 = \<lparr>oreq_UserID = 1, oreq_Product = ''book'', oreq_Amount = 0x4058FF5C28F5C28F\<rparr>"

definition user0 :: User where
  "user0 = \<lparr>user_ID = 0, user_Name = ''ann'', user_Email = ''ann@example.com'', user_Age = 30,
            user_Status = [], user_CreateAt = []\<rparr>"

definition request0 :: Context where
  "request0 =
     \<lparr>Method = ''POST'', Path = ''/orders'', FullPath = ''/orders'', Params = [],
      Header = [], UserAgent = ''curl/8.0'',
      bindOrderReq = Inr orderReq0, bindUser = Inr user0,
      bindMap = Inr [(''user_id'', JInt 1), (''product'', JStr ''book'')],
      reqCtx = NoSpan, Status = 200, Written = None\<rparr>"

definition world1 :: world where
  "world1 =
     world0\<lparr>net := (\<lambda>n url. if n = 0
                          then Replied 200 (Some [(''orders'', JArr []), (''total'', JInt 0)])
                          else DoFailed ''connection refused'')\<rparr>"

definition request1 :: Context where
  "request1 = request0\<lparr>Path := ''/api/v1/orders'', FullPath := ''/api/v1/orders''\<rparr>"

definition traceparent0 :: string where
  "traceparent0 = ''00-4bf92f3577b34da6a3ce929d0e0e4736-00f067aa0ba902b7-01''"

definition context0 :: TraceContext where
  "context0 = \<lparr>traceID = 0x4bf92f3577b34da6a3ce929d0e0e4736, spanID = 0x00f067aa0ba902b7,
               sampled = True\<rparr>"

definition request2 :: Context where
  "request2 = request1\<lparr>Header := [(''Traceparent'', traceparent0)]\<rparr>"

definition request3 :: Context where
  "request3 = request0\<lparr>Method := ''GET'', Path := ''/notify'', FullPath := ''/notify''\<rparr>"

definition answer201 :: handler where
  "answer201 c w = (c_JSON 201 JNull c, w)"

definition request4 :: Context where
  "request4 = request0\<lparr>Method := ''GET'', Path := ''/health'', FullPath := ''/health''\<rparr>"

definition request5 :: Context where
  "request5 = request0\<lparr>Method := ''PURGE'', Path := ''/users/1'', FullPath := []\<rparr>"

definition request6 :: Context where
  "request6 = request0\<lparr>bindOrderReq := Inr (orderReq0\<lparr>oreq_UserID := 999\<rparr>)\<rparr>"

definition request7 :: Context where
  "request7 = request0\<lparr>Method := ''GET'', Path := ''/metrics'', FullPath := ''/metrics''\<rparr>"

text \<open>The user service answers that the user does not exist.\<close>

definition world2 :: world where
  "world2 = world0\<lparr>net := (\<lambda>n url. Replied 404 (Some [(''error'', JStr ''User not found'')]))\<rparr>"


text \<open>A user service that has answered two requests.\<close>

definition world4 :: world where
  "world4 =
     world0\<lparr>metrics :=
       [Inc ''user_operations_total'' [''get_user'', ''success''],
        Inc ''http_requests_total'' [''GET'', ''/users/:id'', ''200''],
        Observe ''http_request_duration_seconds'' [''GET'', ''/users/:id''] 150000000,
        Inc ''user_operations_total'' [''get_user'', ''not_found''],
        Inc ''http_requests_total'' [''GET'', ''/users/:id'', ''404''],
        Observe ''http_request_duration_seconds'' [''GET'', ''/users/:id''] 250000000]\<rparr>"

section \<open>Effects of the primitives\<close>

lemmas prims = Sleep_def rand_Intn_def rand_Float32_lt_005_def counter_Inc_def send_request_def
  next_outcome_def span_update_def SetAttributes_def RecordError_def span_End_def c_JSON_def
  log_Printf_def

lemma ctx_SetAttributes_eq:
  "ctx_SetAttributes a kvs w =
     w\<lparr>spans := (case a of
                    Local h tc \<Rightarrow>
                      update_open h (\<lambda>s. s\<lparr>span_attributes := span_attributes s @ kvs\<rparr>) (spans w)
                  | _ \<Rightarrow> spans w)\<rparr>"
  by (simp add: ctx_SetAttributes_def prims split: active.splits)

lemma ctx_RecordError_eq:
  "ctx_RecordError a e w =
     w\<lparr>spans := (case a of
                    Local h tc \<Rightarrow>
                      update_open h (\<lambda>s. s\<lparr>span_errors := span_errors s @ [e]\<rparr>) (spans w)
                  | _ \<Rightarrow> spans w)\<rparr>"
  by (simp add: ctx_RecordError_def prims split: active.splits)

text \<open>The trace a span started under a context belongs to.\<close>

definition trace_under :: "active \<Rightarrow> world \<Rightarrow> trace_id" where
  "trace_under parent w =
     (case active_context parent of None \<Rightarrow> gen_trace w (id_pos w) | Some tc \<Rightarrow> traceID tc)"

definition started :: "active \<Rightarrow> string \<Rightarrow> world \<Rightarrow> Span" where
  "started parent nm w =
     \<lparr>span_traceID = trace_under parent w, span_spanID = gen_span w (id_pos w),
      span_parentSpanID = map_option spanID (active_context parent),
      span_name = nm, span_startTime = clock w, span_endTime = None,
      span_attributes = [], span_errors = []\<rparr>"

lemma tracer_Start_eq:
  "tracer_Start parent nm w =
     ((Local (length (spans w))
         \<lparr>traceID = trace_under parent w, spanID = gen_span w (id_pos w), sampled = True\<rparr>,
       length (spans w)),
      w\<lparr>spans := spans w @ [started parent nm w], id_pos := Suc (id_pos w)\<rparr>)"
  by (simp add: tracer_Start_def Let_def trace_under_def started_def)

lemmas effects = prims ctx_SetAttributes_eq ctx_RecordError_eq tracer_Start_eq Let_def split_def

lemma update_open_length [simp]: "length (update_open h f ss) = length ss"
  by (simp add: update_open_def)

lemma update_open_traces [simp]:
  "(\<And>s. span_traceID (f s) = span_traceID s) \<Longrightarrow>
   map span_traceID (update_open h f ss) = map span_traceID ss"
  by (auto simp: update_open_def map_update nth_list_update intro!: nth_equalityI)

lemma update_open_names [simp]:
  "(\<And>s. span_name (f s) = span_name s) \<Longrightarrow>
   map span_name (update_open h f ss) = map span_name ss"
  by (auto simp: update_open_def map_update nth_list_update intro!: nth_equalityI)

lemma update_open_fresh [simp]:
  "span_endTime s = None \<Longrightarrow> update_open (length ss) f (ss @ [s]) = ss @ [f s]"
  by (simp add: update_open_def)

lemma update_open_closed_last [simp]:
  "span_endTime s \<noteq> None \<Longrightarrow> update_open (length ss) f (ss @ [s]) = ss @ [s]"
  by (auto simp: update_open_def)

lemma update_open_beyond [simp]:
  "length ss \<le> h \<Longrightarrow> update_open h f ss = ss"
  by (simp add: update_open_def)

subsection \<open>The propagator\<close>

lemma hex_value_digits: "list_all (\<lambda>d. hex_value (hex_digit d) = Some d) [0..<16]"
  by (simp add: upt_rec hex_value_def hex_digit_def)

lemma hex_value_digit: "d < 16 \<Longrightarrow> hex_value (hex_digit d) = Some d"
  using hex_value_digits by (simp add: list_all_iff)

lemma parse_hex_from_append:
  "parse_hex_from acc (xs @ ys) =
     (case parse_hex_from acc xs of None \<Rightarrow> None | Some a \<Rightarrow> parse_hex_from a ys)"
  by (induction xs arbitrary: acc) (auto split: option.splits)

lemma parse_hex_from_to_hex:
  "parse_hex_from acc (to_hex n v) = Some (acc * 16 ^ n + v mod 16 ^ n)"
proof (induction n arbitrary: v)
  case 0
  then show ?case by simp
next
  case (Suc n)
  have "v div 16 mod 16 ^ n * 16 + v mod 16 = v mod (16 * 16 ^ n)"
    by (metis mod_mult2_eq mult.commute add.commute)
  then show ?case
    by (simp add: parse_hex_from_append Suc hex_value_digit algebra_simps)
qed

lemma to_hex_length [simp]: "length (to_hex n v) = n"
  by (induction n arbitrary: v) auto

lemma parse_TraceID_String: "parse_hex (TraceID_String t) = Some (unat t)"
proof -
  have "unat t < 16 ^ 32"
    using unsigned_less[of t, where 'a = nat] by simp
  then show ?thesis
    by (simp add: parse_hex_def TraceID_String_def parse_hex_from_to_hex)
qed

lemma parse_SpanID_String: "parse_hex (SpanID_String s) = Some (unat s)"
proof -
  have "unat s < 16 ^ 16"
    using unsigned_less[of s, where 'a = nat] by simp
  then show ?thesis
    by (simp add: parse_hex_def SpanID_String_def parse_hex_from_to_hex)
qed

lemma String_lengths [simp]: "length (TraceID_String t) = 32" "length (SpanID_String s) = 16"
  by (simp_all add: TraceID_String_def SpanID_String_def)

lemma parse_flags: "parse_hex ''01'' = Some 1" "parse_hex ''00'' = Some 0"
  by (simp_all add: parse_hex_def hex_value_def)

lemma parse_traceparent_roundtrip: "parse_traceparent (traceparent tc) = Inr tc"
  by (simp add: parse_traceparent_def traceparent_def nth_append parse_TraceID_String
      parse_SpanID_String parse_flags)

lemma Extract_Inject: "Extract (Inject tc carrier) = Inr tc"
  by (simp add: Extract_def Inject_def header_Get_def header_Set_def parse_traceparent_roundtrip)

section \<open>Effects of the handlers\<close>

lemma call_result_error: "call_error outcome = Some e \<Longrightarrow> call_result outcome = Inl e"
  by (simp add: call_error_def split: sum.splits)

text \<open>Spans that are closed are out of reach of later updates.\<close>

lemma update_open_keeps_closed:
  "\<forall>s \<in> set (drop n ss). span_endTime s \<noteq> None \<Longrightarrow> drop n (update_open h f ss) = drop n ss"
proof (cases "h < n")
  case True
  then show ?thesis by (simp add: update_open_def)
next
  case False
  assume closed: "\<forall>s \<in> set (drop n ss). span_endTime s \<noteq> None"
  show ?thesis
  proof (cases "h < length ss")
    case True
    with False have "h - n < length (drop n ss)" and "drop n ss ! (h - n) = ss ! h"
      by simp_all
    then have "ss ! h \<in> set (drop n ss)"
      by (metis nth_mem)
    with closed have "span_endTime (ss ! h) \<noteq> None" by blast
    then show ?thesis by (auto simp: update_open_def)
  next
    case False
    then show ?thesis by (simp add: update_open_def)
  qed
qed

subsection \<open>Order service\<close>

lemma callUserService_fst:
  "fst (callUserService ctx uid w) = call_result (net w (net_pos w) (user_service_url (getenv w) uid))"
  by (simp add: callUserService_def effects call_result_def split: call_outcome.splits)

lemma callUserService_frame:
  "orders (snd (callUserService ctx uid w)) = orders w"
  "nextOrderID (snd (callUserService ctx uid w)) = nextOrderID w"
  "metrics (snd (callUserService ctx uid w)) = metrics w"
  "logs (snd (callUserService ctx uid w)) = logs w"
  by (simp_all add: callUserService_def effects split: call_outcome.splits)

lemma createOrder_validation_failed:
  assumes "bindOrderReq c = Inr r"
    and "call_error (net w (net_pos w) (user_service_url (getenv w) (oreq_UserID r))) = Some e"
  shows "Status (fst (createOrder c w)) = 400"
    and "response_field ''error'' (fst (createOrder c w)) = Some (JStr user_validation_failed)"
    and "orders (snd (createOrder c w)) = orders w"
    and "nextOrderID (snd (createOrder c w)) = nextOrderID w"
  using assms(1) call_result_error[OF assms(2)]
  by (simp_all add: createOrder_def Let_def split_def callUserService_fst callUserService_frame
      ctx_SetAttributes_eq ctx_RecordError_eq counter_Inc_def c_JSON_def response_field_def
      json_field_def)

lemma order_simulateWork_frame:
  "orders (order_simulateWork ctx op w) = orders w"
  "nextOrderID (order_simulateWork ctx op w) = nextOrderID w"
  by (simp_all add: order_simulateWork_def effects)

lemma createOrder_replied:
  assumes "bindOrderReq c = Inr r"
    and "net w (net_pos w) (user_service_url (getenv w) (oreq_UserID r)) = Replied code user"
  shows "Status (fst (createOrder c w)) = 201"
    and "response_field ''user'' (fst (createOrder c w)) = Some (map_json user)"
    and "map order_UserID (orders (snd (createOrder c w))) = map order_UserID (orders w) @ [oreq_UserID r]"
    and "nextOrderID (snd (createOrder c w)) = nextOrderID w + 1"
  using assms
  by (simp_all add: createOrder_def Let_def split_def callUserService_fst callUserService_frame
      order_simulateWork_frame ctx_SetAttributes_eq counter_Inc_def c_JSON_def response_field_def
      json_field_def call_result_def)

subsection \<open>Notification service\<close>

lemma sendTime_ms_snd [simp]: "snd (sendTime_ms ty w) = w\<lparr>rng_pos := Suc (rng_pos w)\<rparr>"
  by (simp add: sendTime_ms_def rand_Intn_def)

lemma sendTime_ms_fst [simp]: "fst (sendTime_ms ty w) = send_ms ty (rng w (rng_pos w))"
  by (simp add: sendTime_ms_def rand_Intn_def send_ms_def)

lemma sim_metrics:
  "metrics (simulateNotificationSending ctx ty w) =
     metrics w @ [Inc ''notifications_sent_total''
       [ty, if (rng w (Suc (rng_pos w)) mod 2 ^ 24) * 20 < 2 ^ 24 then ''failed'' else ''success'']]"
  by (simp add: simulateNotificationSending_def effects)

lemma sim_spans:
  "\<exists>s. spans (simulateNotificationSending ctx ty w) = spans w @ [s] \<and>
       span_traceID s = trace_under ctx w \<and>
       span_parentSpanID s = map_option spanID (active_context ctx) \<and>
       span_errors s = (if (rng w (Suc (rng_pos w)) mod 2 ^ 24) * 20 < 2 ^ 24
                        then [''notification sending failed''] else []) \<and>
       span_endTime s \<noteq> None"
  by (simp add: simulateNotificationSending_def effects started_def)

lemma sim_frame:
  "nextNotificationID (simulateNotificationSending ctx ty w) = nextNotificationID w"
  "rng (simulateNotificationSending ctx ty w) = rng w"
  "rng_pos (simulateNotificationSending ctx ty w) = Suc (Suc (rng_pos w))"
  "format_RFC3339 (simulateNotificationSending ctx ty w) = format_RFC3339 w"
  "logs (simulateNotificationSending ctx ty w) = logs w"
  "clock (simulateNotificationSending ctx ty w) = clock w + int (send_ms ty (rng w (rng_pos w))) * Millisecond"
  by (simp_all add: simulateNotificationSending_def effects)

lemma sendNotification_response:
  "fst (sendNotification c w) =
     c_JSON 200 (Notification_json
       \<lparr>notif_ID = nextNotificationID w, notif_Type = notify_type w,
        notif_Message = order_created_prefix @ Itoa (int (rng w (Suc (Suc (Suc (rng_pos w)))) mod 10000) + 1000),
        notif_Status = ''sent'',
        notif_SentAt = format_RFC3339 w
          (clock w + int (send_ms (notify_type w) (rng w (Suc (rng_pos w)))) * Millisecond)\<rparr>) c"
  by (simp add: sendNotification_def Let_def split_def sim_frame notify_type_def rand_Intn_def ctx_SetAttributes_eq)

lemma sendNotification_metrics:
  "metrics (snd (sendNotification c w)) =
     metrics w @ [Inc ''notifications_sent_total''
       [notify_type w, if notify_send_failed w then ''failed'' else ''success'']]"
  by (simp add: sendNotification_def Let_def split_def sim_metrics notify_type_def notify_send_failed_def rand_Intn_def ctx_SetAttributes_eq)

lemma ctx_SetAttributes_length [simp]: "length (spans (ctx_SetAttributes a kvs w)) = length (spans w)"
  by (simp add: ctx_SetAttributes_eq split: active.splits)

lemma ctx_SetAttributes_new_closed:
  assumes "spans w = ss @ ts" and "\<forall>s \<in> set ts. span_endTime s \<noteq> None"
  shows "drop (length ss) (spans (ctx_SetAttributes a kvs w)) = ts"
proof (cases a)
  case (Local h tc)
  have "drop (length ss) (update_open h (\<lambda>s. s\<lparr>span_attributes := span_attributes s @ kvs\<rparr>) (ss @ ts)) = drop (length ss) (ss @ ts)"
    by (rule update_open_keeps_closed) (simp add: assms(2))
  with Local assms(1) show ?thesis by (simp add: ctx_SetAttributes_eq)
qed (simp_all add: ctx_SetAttributes_eq assms(1))

lemma sendNotification_new_spans:
  "\<exists>s. new_spans w (snd (sendNotification c w)) = [s] \<and>
        span_errors s = (if notify_send_failed w then [''notification sending failed''] else []) \<and>
        span_parentSpanID s = map_option spanID (active_context (reqCtx c))"
proof -
  define w1 where "w1 = ctx_SetAttributes (reqCtx c) [(''operation'', AString ''send_notification'')] w"
  define w2 where "w2 = snd (rand_Intn (length notificationTypes) w1)"
  define w3 where "w3 = simulateNotificationSending (reqCtx c) (notify_type w) w2"
  obtain s where s: "spans w3 = spans w2 @ [s]"
      "span_errors s = (if (rng w2 (Suc (rng_pos w2)) mod 2 ^ 24) * 20 < 2 ^ 24
                        then [''notification sending failed''] else [])"
      "span_parentSpanID s = map_option spanID (active_context (reqCtx c))"
      "span_endTime s \<noteq> None"
    using sim_spans[of "reqCtx c" "notify_type w" w2] unfolding w3_def by blast
  have len: "length (spans w2) = length (spans w)"
    by (simp add: w2_def w1_def rand_Intn_def)
  have rw: "rng w2 = rng w" "rng_pos w2 = Suc (rng_pos w)"
    by (simp_all add: w2_def w1_def rand_Intn_def ctx_SetAttributes_eq)
  have "new_spans w (snd (sendNotification c w)) = [s]"
    unfolding new_spans_def len[symmetric]
    apply (simp add: sendNotification_def Let_def split_def)
    apply (rule ctx_SetAttributes_new_closed[where ts="[s]"])
    using s(1,4)
    by (simp_all add: w3_def w2_def w1_def rand_Intn_def notify_type_def ctx_SetAttributes_eq)
  with s(2,3) rw show ?thesis
    by (simp add: notify_send_failed_def)
qed

lemma sendNotification_blind:
  "fst (sendNotification c (w\<lparr>rng := (rng w)(rng_pos w + 2 := x)\<rparr>)) = fst (sendNotification c w)"
  by (simp add: sendNotification_response notify_type_def)


subsection \<open>API gateway\<close>

lemma callService_fst:
  "fst (callService ctx nm url w) = call_result (net w (net_pos w) url)"
  by (simp add: callService_def effects call_result_def split: call_outcome.splits)

lemma callService_frame:
  "net (snd (callService ctx nm url w)) = net w"
  "net_pos (snd (callService ctx nm url w)) = Suc (net_pos w)"
  "getenv (snd (callService ctx nm url w)) = getenv w"
  "logs (snd (callService ctx nm url w)) = logs w"
  "clock (snd (callService ctx nm url w)) = clock w"
  "gen_trace (snd (callService ctx nm url w)) = gen_trace w"
  "id_pos (snd (callService ctx nm url w)) = Suc (id_pos w)"
  by (simp_all add: callService_def effects split: call_outcome.splits)


lemma callService_spans:
  "\<exists>s. spans (snd (callService ctx nm url w)) = spans w @ [s] \<and>
       span_name s = ''call-'' @ nm \<and>
       span_traceID s = trace_under ctx w \<and>
       span_parentSpanID s = map_option spanID (active_context ctx) \<and>
       span_endTime s \<noteq> None"
  by (simp add: callService_def effects started_def split: call_outcome.splits)


lemma new_spans_append [simp]: "spans w' = spans w @ ss \<Longrightarrow> new_spans w w' = ss"
  by (simp add: new_spans_def)


lemma gw_createOrder_optional_failed:
  assumes "bindMap c = Inr m"
    and "net w (net_pos w) (orders_url (getenv w)) = Replied code order"
    and "call_error (net w (Suc (net_pos w)) (notify_url (getenv w))) = Some e"
  shows "fst (gw_createOrder c w) =
           c_JSON 200 (JObj [(''order'', map_json order), (''notification'', JNull)]) c"
    and "snd (gw_createOrder c w) =
           log_Printf (''Failed to send notification: '' @ e)
             (snd (callService (reqCtx c) ''notification-service'' (notify_url (getenv w))
               (snd (callService (reqCtx c) ''order-service'' (orders_url (getenv w)) w))))"
  using assms(1,2) call_result_error[OF assms(3)]
  by (simp_all add: gw_createOrder_def Let_def split_def callService_fst callService_frame
      orders_url_def notify_url_def call_result_def map_json_def)


lemma gw_optional_failed_summary:
  assumes "bindMap c = Inr m"
    and "net w (net_pos w) (orders_url (getenv w)) = Replied code order"
    and "call_error (net w (Suc (net_pos w)) (notify_url (getenv w))) = Some e"
  shows "Status (fst (gw_createOrder c w)) = 200"
    and "Written (fst (gw_createOrder c w)) =
           Some (JsonBody (JObj [(''order'', map_json order), (''notification'', JNull)]))"
    and "new_logs w (snd (gw_createOrder c w)) = [StdLog (''Failed to send notification: '' @ e)]"
    and "map span_name (new_spans w (snd (gw_createOrder c w))) =
           [''call-order-service'', ''call-notification-service'']"
proof -
  note r = gw_createOrder_optional_failed[OF assms]
  let ?w1 = "snd (callService (reqCtx c) ''order-service'' (orders_url (getenv w)) w)"
  obtain s where s: "spans ?w1 = spans w @ [s]" "span_name s = ''call-'' @ ''order-service''"
    using callService_spans by blast
  obtain t where t: "spans (snd (callService (reqCtx c) ''notification-service'' (notify_url (getenv w)) ?w1)) = spans ?w1 @ [t]"
    "span_name t = ''call-'' @ ''notification-service''"
    using callService_spans by blast
  show "Status (fst (gw_createOrder c w)) = 200"
    and "Written (fst (gw_createOrder c w)) =
           Some (JsonBody (JObj [(''order'', map_json order), (''notification'', JNull)]))"
    by (simp_all add: r c_JSON_def)
  show "new_logs w (snd (gw_createOrder c w)) = [StdLog (''Failed to send notification: '' @ e)]"
    by (simp add: r new_logs_def log_Printf_def callService_frame)
  show "map span_name (new_spans w (snd (gw_createOrder c w))) =
           [''call-order-service'', ''call-notification-service'']"
    using s t by (simp add: r log_Printf_def)
qed



section \<open>What a request emits: proofs\<close>

text \<open>
  From \<open>w\<close> to \<open>w'\<close> the spans that existed keep their identity, every span added belongs
  to the trace \<open>T\<close>, every metric call added satisfies \<open>M\<close> and every log record added
  satisfies \<open>L\<close>.
\<close>

lemma emits_refl: "emits T M L w w"
  by (simp add: emits_def)

lemma emits_same:
  "emits T M L w w1 \<Longrightarrow> map ident (spans w2) = map ident (spans w1) \<Longrightarrow>
   metrics w2 = metrics w1 \<Longrightarrow> logs w2 = logs w1 \<Longrightarrow> emits T M L w w2"
  by (simp add: emits_def)

lemma emits_Sleep: "emits T M L w w1 \<Longrightarrow> emits T M L w (Sleep d w1)"
  by (erule emits_same) (simp_all add: prims)

lemma emits_rand_Intn: "emits T M L w w1 \<Longrightarrow> emits T M L w (snd (rand_Intn n w1))"
  by (erule emits_same) (simp_all add: prims)

lemma emits_rand_Float32: "emits T M L w w1 \<Longrightarrow> emits T M L w (snd (rand_Float32_lt_005 w1))"
  by (erule emits_same) (simp_all add: prims)

lemma emits_send_request: "emits T M L w w1 \<Longrightarrow> emits T M L w (send_request url hdr w1)"
  by (erule emits_same) (simp_all add: prims)

lemma emits_next_outcome: "emits T M L w w1 \<Longrightarrow> emits T M L w (snd (next_outcome url w1))"
  by (erule emits_same) (simp_all add: prims)

lemma emits_counter_Inc:
  "emits T M L w w1 \<Longrightarrow> M (Inc nm ls) \<Longrightarrow> emits T M L w (counter_Inc nm ls w1)"
  by (auto simp: emits_def prims)

lemma emits_log_Printf:
  "emits T M L w w1 \<Longrightarrow> L (StdLog line) \<Longrightarrow> emits T M L w (log_Printf line w1)"
  by (auto simp: emits_def prims)

lemma update_open_ident:
  "(\<And>s. ident (f s) = ident s) \<Longrightarrow> map ident (update_open h f ss) = map ident ss"
  by (auto simp: update_open_def map_update nth_list_update intro!: nth_equalityI)

lemma emits_span_update:
  "emits T M L w w1 \<Longrightarrow> (\<And>s. ident (f s) = ident s) \<Longrightarrow> emits T M L w (span_update h f w1)"
  by (erule emits_same) (simp_all add: span_update_def update_open_ident)

lemma emits_SetAttributes: "emits T M L w w1 \<Longrightarrow> emits T M L w (SetAttributes h kvs w1)"
  unfolding SetAttributes_def by (erule emits_span_update) (simp add: ident_def)

lemma emits_RecordError: "emits T M L w w1 \<Longrightarrow> emits T M L w (RecordError h e w1)"
  unfolding RecordError_def by (erule emits_span_update) (simp add: ident_def)

lemma emits_span_End: "emits T M L w w1 \<Longrightarrow> emits T M L w (span_End h w1)"
  unfolding span_End_def by (erule emits_span_update) (simp add: ident_def)

lemma emits_ctx_SetAttributes: "emits T M L w w1 \<Longrightarrow> emits T M L w (ctx_SetAttributes a kvs w1)"
  unfolding ctx_SetAttributes_def by (cases a) (simp_all add: emits_SetAttributes)

lemma emits_ctx_RecordError: "emits T M L w w1 \<Longrightarrow> emits T M L w (ctx_RecordError a e w1)"
  unfolding ctx_RecordError_def by (cases a) (simp_all add: emits_RecordError)

lemma emits_tracer_Start:
  "emits T M L w w1 \<Longrightarrow> active_context ctx = Some tc \<Longrightarrow> traceID tc = T \<Longrightarrow>
   emits T M L w (snd (tracer_Start ctx nm w1))"
  by (auto simp: emits_def tracer_Start_eq started_def trace_under_def ident_def)

lemma emits_store:
  "emits T M L w w1 \<Longrightarrow> emits T M L w (w1\<lparr>orders := os\<rparr>)"
  "emits T M L w w1 \<Longrightarrow> emits T M L w (w1\<lparr>nextOrderID := i\<rparr>)"
  "emits T M L w w1 \<Longrightarrow> emits T M L w (w1\<lparr>users := us\<rparr>)"
  "emits T M L w w1 \<Longrightarrow> emits T M L w (w1\<lparr>nextNotificationID := j\<rparr>)"
  by (simp_all add: emits_def)

lemmas emits_intros = emits_Sleep emits_rand_Intn emits_rand_Float32 emits_send_request
  emits_next_outcome emits_counter_Inc emits_log_Printf emits_SetAttributes emits_RecordError
  emits_span_End emits_ctx_SetAttributes emits_ctx_RecordError emits_tracer_Start emits_store

lemma emits_user_simulateWork:
  "emits T M L w w1 \<Longrightarrow> active_context ctx = Some tc \<Longrightarrow> traceID tc = T \<Longrightarrow>
   emits T M L w (user_simulateWork ctx operation w1)"
  unfolding user_simulateWork_def Let_def split_def
  by (intro emits_intros)

lemma emits_order_simulateWork:
  "emits T M L w w1 \<Longrightarrow> active_context ctx = Some tc \<Longrightarrow> traceID tc = T \<Longrightarrow>
   emits T M L w (order_simulateWork ctx operation w1)"
  unfolding order_simulateWork_def Let_def split_def
  by (intro emits_intros)

lemma emits_sendTime_ms: "emits T M L w w1 \<Longrightarrow> emits T M L w (snd (sendTime_ms ty w1))"
  by (erule emits_same) simp_all

lemma emits_simulateNotificationSending:
  "emits T M L w w1 \<Longrightarrow> active_context ctx = Some tc \<Longrightarrow> traceID tc = T \<Longrightarrow>
   M (Inc ''notifications_sent_total'' [ty, ''failed'']) \<Longrightarrow>
   M (Inc ''notifications_sent_total'' [ty, ''success'']) \<Longrightarrow>
   emits T M L w (simulateNotificationSending ctx ty w1)"
  unfolding simulateNotificationSending_def Let_def split_def
  by (auto intro!: emits_intros emits_sendTime_ms simp del: sendTime_ms_snd)

lemma emits_callUserService:
  "emits T M L w w1 \<Longrightarrow> active_context ctx = Some tc \<Longrightarrow> traceID tc = T \<Longrightarrow>
   emits T M L w (snd (callUserService ctx uid w1))"
  unfolding callUserService_def Let_def split_def
  by (auto split: call_outcome.splits intro!: emits_intros)

lemma emits_callService:
  "emits T M L w w1 \<Longrightarrow> active_context ctx = Some tc \<Longrightarrow> traceID tc = T \<Longrightarrow>
   M (Inc ''service_calls_total'' [nm, ''success'']) \<Longrightarrow>
   M (Inc ''service_calls_total'' [nm, ''error'']) \<Longrightarrow>
   emits T M L w (snd (callService ctx nm url w1))"
  unfolding callService_def Let_def split_def
  by (auto split: call_outcome.splits simp: status_label_def intro!: emits_intros)

subsection \<open>The handlers\<close>

lemma answers_c_JSON: "code \<in> set statuses \<Longrightarrow> answers c (c_JSON code j c)"
  by (auto simp: answers_def c_JSON_def)

lemma answers_write: "s \<in> set statuses \<Longrightarrow> answers c (c\<lparr>Status := s, Written := Some b\<rparr>)"
  unfolding answers_def by blast

lemma handlesI: "answers c c' \<Longrightarrow> emits T M L w w' \<Longrightarrow> handles T M L c w (c', w')"
  by (simp add: handles_def)

lemma notification_events:
  "ty \<in> set notificationTypes \<Longrightarrow>
   domain_event NotificationService (Inc ''notifications_sent_total'' [ty, ''failed'']) \<and>
   domain_event NotificationService (Inc ''notifications_sent_total'' [ty, ''success''])"
  by (auto simp: domain_event_def domain_events_def)

lemma rand_Intn_fst: "fst (rand_Intn n w) = rng w (rng_pos w) mod n"
  by (simp add: rand_Intn_def)

lemma drawn_type: "notificationTypes ! (r mod length notificationTypes) \<in> set notificationTypes"
  by (rule nth_mem) (simp add: notificationTypes_def)

lemmas handler_intros = handlesI answers_c_JSON emits_intros emits_refl
  emits_user_simulateWork emits_order_simulateWork emits_callUserService

lemma health_handles: "handles T M L c w (health svc c w)"
  unfolding health_def by (auto intro!: handler_intros simp: statuses_def)

lemma metrics_handler_handles: "handles T M L c w (metrics_handler svc c w)"
  unfolding metrics_handler_def by (auto intro!: handlesI emits_refl answers_write simp: statuses_def)

lemma getUserByID_handles:
  "active_context (reqCtx c) = Some tc \<Longrightarrow>
   handles (traceID tc) (domain_event UserService) L c w (getUserByID c w)"
  unfolding getUserByID_def Let_def
  by (auto split: option.splits intro!: handler_intros
      simp: statuses_def domain_event_def domain_events_def)

lemma getAllUsers_handles:
  "active_context (reqCtx c) = Some tc \<Longrightarrow>
   handles (traceID tc) (domain_event UserService) L c w (getAllUsers c w)"
  unfolding getAllUsers_def Let_def
  by (auto intro!: handler_intros simp: statuses_def domain_event_def domain_events_def)

lemma createUser_handles:
  "active_context (reqCtx c) = Some tc \<Longrightarrow>
   handles (traceID tc) (domain_event UserService) L c w (createUser c w)"
  unfolding createUser_def Let_def
  by (auto split: sum.splits intro!: handler_intros
      simp: statuses_def domain_event_def domain_events_def)

lemma getOrders_handles:
  "active_context (reqCtx c) = Some tc \<Longrightarrow>
   handles (traceID tc) (domain_event OrderService) L c w (getOrders c w)"
  unfolding getOrders_def Let_def
  by (auto intro!: handler_intros simp: statuses_def domain_event_def domain_events_def)

lemma createOrder_handles:
  "active_context (reqCtx c) = Some tc \<Longrightarrow>
   handles (traceID tc) (domain_event OrderService) L c w (createOrder c w)"
  unfolding createOrder_def Let_def split_def
  by (auto split: sum.splits intro!: handler_intros
      simp: statuses_def domain_event_def domain_events_def)

lemma getOrderByID_handles:
  "active_context (reqCtx c) = Some tc \<Longrightarrow>
   handles (traceID tc) (domain_event OrderService) L c w (getOrderByID c w)"
  unfolding getOrderByID_def Let_def
  by (auto split: option.splits intro!: handler_intros
      simp: statuses_def domain_event_def domain_events_def)

lemma sendNotification_handles:
  "active_context (reqCtx c) = Some tc \<Longrightarrow>
   handles (traceID tc) (domain_event NotificationService) L c w (sendNotification c w)"
  unfolding sendNotification_def Let_def split_def
  using notification_events[OF drawn_type]
  by (auto intro!: handler_intros emits_simulateNotificationSending simp: statuses_def rand_Intn_fst)

lemma sendFixed_handles:
  "active_context (reqCtx c) = Some tc \<Longrightarrow> ty \<in> set notificationTypes \<Longrightarrow>
   handles (traceID tc) (domain_event NotificationService) L c w (sendFixed operation ty message c w)"
  unfolding sendFixed_def Let_def split_def
  using notification_events[of ty]
  by (auto intro!: handler_intros emits_simulateNotificationSending simp: statuses_def)

lemma gateway_events:
  "nm \<in> {''user-service'', ''order-service'', ''notification-service''} \<Longrightarrow>
   domain_event Gateway (Inc ''service_calls_total'' [nm, ''success'']) \<and>
   domain_event Gateway (Inc ''service_calls_total'' [nm, ''error''])"
  by (auto simp: domain_event_def domain_events_def)

lemma emits_gateway_call:
  "emits T (domain_event Gateway) L w w1 \<Longrightarrow> active_context ctx = Some tc \<Longrightarrow> traceID tc = T \<Longrightarrow>
   nm \<in> {''user-service'', ''order-service'', ''notification-service''} \<Longrightarrow>
   emits T (domain_event Gateway) L w (snd (callService ctx nm url w1))"
  using gateway_events[of nm] by (auto intro!: emits_callService)

lemma gw_getUser_handles:
  "active_context (reqCtx c) = Some tc \<Longrightarrow>
   handles (traceID tc) (domain_event Gateway) L c w (gw_getUser c w)"
  unfolding gw_getUser_def Let_def split_def
  by (auto split: sum.splits intro!: handler_intros emits_gateway_call simp: statuses_def)

lemma gw_getOrders_handles:
  "active_context (reqCtx c) = Some tc \<Longrightarrow>
   handles (traceID tc) (domain_event Gateway) L c w (gw_getOrders c w)"
  unfolding gw_getOrders_def Let_def split_def
  by (auto split: sum.splits intro!: handler_intros emits_gateway_call simp: statuses_def)

lemma gw_createOrder_handles:
  "active_context (reqCtx c) = Some tc \<Longrightarrow>
   handles (traceID tc) (domain_event Gateway) is_std c w (gw_createOrder c w)"
  unfolding gw_createOrder_def Let_def split_def
  by (auto split: sum.splits intro!: handler_intros emits_gateway_call simp: statuses_def is_std_def)

subsection \<open>The chain of middleware\<close>

lemma trace_under_inbound: "trace_under (inbound c) w = request_trace c w"
  by (simp add: trace_under_def inbound_def request_trace_def active_context_def split: sum.splits)

lemma root_ctx_context:
  "active_context (root_ctx c w) =
     Some \<lparr>traceID = request_trace c w, spanID = gen_span w (id_pos w), sampled = True\<rparr>"
  by (simp add: root_ctx_def tracer_Start_eq active_context_def trace_under_inbound)

lemma serve_unfold:
  "serve svc h c w =
     (let c1 = c\<lparr>reqCtx := root_ctx c w\<rparr>;
          w1 = root_world c w;
          c2 = fst (h c1 w1);
          w2 = snd (h c1 w1);
          line = AccessLog (clock w2) (log_service svc) (Method c2) (Path c2) (Status c2)
                   (clock w2 - clock w1) (UserAgent c2) (ctx_TraceID_String (reqCtx c2));
          w3 = w2\<lparr>logs := logs w2 @ [line]\<rparr>;
          w4 = w3\<lparr>metrics := metrics w3 @
                 [Inc ''http_requests_total'' [Method c2, FullPath c2, Itoa (Status c2)],
                  Observe ''http_request_duration_seconds'' [Method c2, FullPath c2]
                    (clock w3 - clock w1)]\<rparr>
      in (c2\<lparr>reqCtx := reqCtx c\<rparr>,
          span_End (length (spans w))
            (SetAttributes (length (spans w)) [(''http.status_code'', AInt (Status c2))] w4)))"
  by (simp add: serve_def otelgin_Middleware_def prometheusMiddleware_def loggingMiddleware_def
      Let_def split_def root_ctx_def root_world_def inbound_def tracer_Start_eq)

lemma serve_fst:
  "fst (serve svc h c w) = (fst (h (c\<lparr>reqCtx := root_ctx c w\<rparr>) (root_world c w)))\<lparr>reqCtx := reqCtx c\<rparr>"
  by (simp add: serve_unfold Let_def)

lemma serve_emits:
  assumes H: "\<And>c1 w1 tc. active_context (reqCtx c1) = Some tc \<Longrightarrow>
                handles (traceID tc) M is_std c1 w1 (h c1 w1)"
  shows "\<exists>ts. map ident (new_spans w (snd (serve svc h c w))) =
            (request_trace c w, gen_span w (id_pos w),
             map_option spanID (active_context (inbound c)), FullPath c) # ts \<and>
            list_all (\<lambda>i. fst i = request_trace c w) ts"
    and "\<exists>es st d. new_metrics w (snd (serve svc h c w)) =
            es @ [Inc ''http_requests_total'' [Method c, FullPath c, Itoa st],
                  Observe ''http_request_duration_seconds'' [Method c, FullPath c] d] \<and>
            list_all M es \<and> st \<in> set statuses"
    and "\<exists>ls t st lat. new_logs w (snd (serve svc h c w)) =
            ls @ [AccessLog t (log_service svc) (Method c) (Path c) st lat (UserAgent c)
                    (TraceID_String (request_trace c w))] \<and>
            list_all is_std ls"
proof -
  define c1 where "c1 = c\<lparr>reqCtx := root_ctx c w\<rparr>"
  define w1 where "w1 = root_world c w"
  define c2 where "c2 = fst (h c1 w1)"
  define w2 where "w2 = snd (h c1 w1)"
  have ctx: "active_context (reqCtx c1) =
      Some \<lparr>traceID = request_trace c w, spanID = gen_span w (id_pos w), sampled = True\<rparr>"
    by (simp add: c1_def root_ctx_context)
  from H[OF ctx, of w1]
  have ans: "answers c1 c2" and em: "emits (request_trace c w) M is_std w1 w2"
    by (simp_all add: handles_def c2_def w2_def)
  from ans obtain s b where c2: "c2 = c1\<lparr>Status := s, Written := Some b\<rparr>" and s: "s \<in> set statuses"
    by (auto simp: answers_def)
  from em obtain ts es ls where
    ts: "map ident (spans w2) = map ident (spans w1) @ ts" "list_all (\<lambda>i. fst i = request_trace c w) ts"
    and es: "metrics w2 = metrics w1 @ es" "list_all M es"
    and ls: "logs w2 = logs w1 @ ls" "list_all is_std ls"
    by (auto simp: emits_def)
  have w1: "spans w1 = spans w @ [started (inbound c) (FullPath c) w]"
    "metrics w1 = metrics w" "logs w1 = logs w"
    by (simp_all add: w1_def root_world_def tracer_Start_eq)
  have root: "ident (started (inbound c) (FullPath c) w) =
      (request_trace c w, gen_span w (id_pos w),
       map_option spanID (active_context (inbound c)), FullPath c)"
    by (simp add: ident_def started_def trace_under_inbound)
  have fields: "Method c2 = Method c" "FullPath c2 = FullPath c" "Path c2 = Path c"
    "UserAgent c2 = UserAgent c" "Status c2 = s"
    "ctx_TraceID_String (reqCtx c2) = TraceID_String (request_trace c w)"
    by (simp_all add: c2 c1_def ctx_TraceID_String_def root_ctx_context)
  have sp: "map ident (spans (snd (serve svc h c w))) = map ident (spans w2)"
    by (simp add: serve_unfold Let_def c1_def[symmetric] w1_def[symmetric] w2_def[symmetric]
        prims update_open_ident ident_def)
  have "map ident (new_spans w (snd (serve svc h c w))) =
      drop (length (spans w)) (map ident (spans (snd (serve svc h c w))))"
    by (simp add: new_spans_def drop_map)
  also have "\<dots> = (request_trace c w, gen_span w (id_pos w),
             map_option spanID (active_context (inbound c)), FullPath c) # ts"
    by (simp add: sp ts(1) w1(1) root)
  finally show "\<exists>ts. map ident (new_spans w (snd (serve svc h c w))) =
            (request_trace c w, gen_span w (id_pos w),
             map_option spanID (active_context (inbound c)), FullPath c) # ts \<and>
            list_all (\<lambda>i. fst i = request_trace c w) ts"
    using ts(2) by auto
  have "new_metrics w (snd (serve svc h c w)) =
      es @ [Inc ''http_requests_total'' [Method c, FullPath c, Itoa s],
            Observe ''http_request_duration_seconds'' [Method c, FullPath c] (clock w2 - clock w1)]"
    by (simp add: serve_unfold Let_def c1_def[symmetric] w1_def[symmetric] w2_def[symmetric]
        c2_def[symmetric] prims new_metrics_def es(1) w1(2) fields)
  then show "\<exists>es st d. new_metrics w (snd (serve svc h c w)) =
            es @ [Inc ''http_requests_total'' [Method c, FullPath c, Itoa st],
                  Observe ''http_request_duration_seconds'' [Method c, FullPath c] d] \<and>
            list_all M es \<and> st \<in> set statuses"
    using es(2) s by auto
  have "new_logs w (snd (serve svc h c w)) =
      ls @ [AccessLog (clock w2) (log_service svc) (Method c) (Path c) s (clock w2 - clock w1)
              (UserAgent c) (TraceID_String (request_trace c w))]"
    by (simp add: serve_unfold Let_def c1_def[symmetric] w1_def[symmetric] w2_def[symmetric]
        c2_def[symmetric] prims new_logs_def ls(1) w1(3) fields)
  then show "\<exists>ls t st lat. new_logs w (snd (serve svc h c w)) =
            ls @ [AccessLog t (log_service svc) (Method c) (Path c) st lat (UserAgent c)
                    (TraceID_String (request_trace c w))] \<and>
            list_all is_std ls"
    using ls(2) by auto
qed

text \<open>Every handler of a registered route keeps the contract.\<close>

lemma route_handles:
  assumes "r \<in> set (routes svc)" and "active_context (reqCtx c) = Some tc"
  shows "handles (traceID tc) (domain_event svc) is_std c w (snd (snd r) c w)"
proof (cases svc)
  case Gateway
  with assms show ?thesis
    by (auto simp: routes_def health_handles metrics_handler_handles gw_getUser_handles
        gw_createOrder_handles gw_getOrders_handles)
next
  case UserService
  with assms show ?thesis
    by (auto simp: routes_def health_handles metrics_handler_handles getUserByID_handles
        getAllUsers_handles createUser_handles)
next
  case OrderService
  with assms show ?thesis
    by (auto simp: routes_def health_handles metrics_handler_handles getOrders_handles
        createOrder_handles getOrderByID_handles)
next
  case NotificationService
  with assms show ?thesis
    by (auto simp: routes_def health_handles metrics_handler_handles sendNotification_handles
        sendEmail_def sendSMS_def notificationTypes_def intro!: sendFixed_handles)
qed

section \<open>The logging demo application: proofs\<close>

lemma getMockTraceID_eq:
  "0 < clock w \<Longrightarrow>
   getMockTraceID ctx w = Some (hello_trace_id w, w\<lparr>rng_pos := Suc (rng_pos w)\<rparr>)"
  by (simp add: getMockTraceID_def rand_Int63n_def hello_trace_id_def)

lemma hello_logs_eq:
  assumes "0 < clock w"
  shows "\<exists>r' w' l2. hello r w = Some (r', w') \<and>
           new_logs w w' =
             [SLog ''INFO'' ''Received request for /hello.''
                (baseLogger @
                 [(''trace_id'', AString (hello_trace_id w)),
                  (''request_id'', AString (hello_request_id r w)),
                  (''http_method'', AString (Method r)), (''http_path'', AString (Path r))]),
              SLog (fst l2) (fst (snd l2))
                (baseLogger @
                 [(''trace_id'', AString (hello_trace_id w)),
                  (''request_id'', AString (hello_request_id r w)),
                  (''http_method'', AString (Method r)), (''http_path'', AString (Path r))] @
                 snd (snd l2))]"
proof (cases "Header_Get ''X-Request-Id'' r = []")
  case True
  with assms show ?thesis
    by (simp add: hello_def getMockTraceID_eq rand_Int63n_def Let_def split_def prims
        logger_Log_def logger_With_def new_logs_def hello_request_id_def)
next
  case False
  with assms show ?thesis
    by (simp add: hello_def getMockTraceID_eq Let_def split_def prims
        logger_Log_def logger_With_def new_logs_def hello_request_id_def)
qed

lemma hello_panics: "clock w \<le> 0 \<Longrightarrow> hello r w = None"
  by (simp add: hello_def getMockTraceID_def rand_Int63n_def)

lemma hello_logs:
  assumes "hello r w = Some (r', w')"
  shows "length (new_logs w w') = 2 \<and>
         (\<forall>l \<in> set (new_logs w w').
            log_trace_id l = Some (hello_trace_id w) \<and>
            log_request_id l = Some (hello_request_id r w) \<and>
            log_service_identity l = Some serviceName \<and>
            log_service_version l = Some serviceVersion)"
proof -
  have pos: "0 < clock w"
    using assms hello_panics[of w r] by (cases "0 < clock w") auto
  from hello_logs_eq[OF pos, of r] assms show ?thesis
    by (auto simp: log_trace_id_def log_request_id_def log_service_identity_def
        log_service_version_def attr_text_def baseLogger_def)
qed

section \<open>Evaluation on the example inputs\<close>

lemma Itoa_statuses: "map Itoa statuses = [''200'', ''201'', ''400'', ''404'', ''500'']"
  by (simp add: statuses_def Itoa_def digits.simps digit_char_def)

lemma parse_traceparent0: "parse_traceparent traceparent0 = Inr context0"
  by (simp add: traceparent0_def parse_traceparent_def parse_hex_def hex_value_def context0_def)

lemma Extract_request2: "Extract (Header request2) = Inr context0"
  by (simp add: request2_def Extract_def header_Get_def parse_traceparent0)

lemma to_hex_numeral:
  "to_hex (numeral k) v = to_hex (pred_numeral k) (v div 16) @ [hex_digit (v mod 16)]"
proof -
  have "to_hex (numeral k) v = to_hex (Suc (pred_numeral k)) v"
    by (simp only: numeral_eq_Suc)
  then show ?thesis by simp
qed

lemma TraceID_String_context0:
  "TraceID_String (traceID context0) = ''4bf92f3577b34da6a3ce929d0e0e4736''"
  by (simp add: context0_def TraceID_String_def to_hex_numeral hex_digit_def)

section \<open>Requests through the chain: proofs\<close>

subsection \<open>Requests to registered routes\<close>

lemma prometheusMiddleware_fst: "fst (prometheusMiddleware next c w) = fst (next c w)"
  by (simp add: prometheusMiddleware_def Let_def split_def)

lemma prometheusMiddleware_snd:
  "snd (prometheusMiddleware next c w) =
     (snd (next c w))\<lparr>metrics := metrics (snd (next c w)) @
        [Inc ''http_requests_total''
           [Method (fst (next c w)), FullPath (fst (next c w)), Itoa (Status (fst (next c w)))],
         Observe ''http_request_duration_seconds''
           [Method (fst (next c w)), FullPath (fst (next c w))]
           (clock (snd (next c w)) - clock w)]\<rparr>"
  by (simp add: prometheusMiddleware_def Let_def split_def)

lemma route_emits:
  assumes "r \<in> set (routes svc)"
  shows "\<exists>ts. map ident (new_spans w (snd (serve svc (snd (snd r)) c w))) =
            (request_trace c w, gen_span w (id_pos w),
             map_option spanID (active_context (inbound c)), FullPath c) # ts \<and>
            list_all (\<lambda>i. fst i = request_trace c w) ts"
    and "\<exists>es st d. new_metrics w (snd (serve svc (snd (snd r)) c w)) =
            es @ [Inc ''http_requests_total'' [Method c, FullPath c, Itoa st],
                  Observe ''http_request_duration_seconds'' [Method c, FullPath c] d] \<and>
            list_all (domain_event svc) es \<and> st \<in> set statuses"
    and "\<exists>ls t st lat. new_logs w (snd (serve svc (snd (snd r)) c w)) =
            ls @ [AccessLog t (log_service svc) (Method c) (Path c) st lat (UserAgent c)
                    (TraceID_String (request_trace c w))] \<and>
            list_all is_std ls"
  by (rule serve_emits[OF route_handles[OF assms]]; assumption)+

lemma route_one_trace:
  assumes "r \<in> set (routes svc)"
  shows "\<forall>s \<in> set (new_spans w (snd (serve svc (snd (snd r)) c w))).
           span_traceID s = request_trace c w"
    and "new_spans w (snd (serve svc (snd (snd r)) c w)) \<noteq> []"
    and "span_parentSpanID (hd (new_spans w (snd (serve svc (snd (snd r)) c w)))) =
           map_option spanID (active_context (inbound c))"
proof -
  let ?ns = "new_spans w (snd (serve svc (snd (snd r)) c w))"
  from route_emits(1)[OF assms, of w c] obtain ts where
    ts: "map ident ?ns = (request_trace c w, gen_span w (id_pos w),
             map_option spanID (active_context (inbound c)), FullPath c) # ts"
    and all: "list_all (\<lambda>i. fst i = request_trace c w) ts"
    by auto
  show "\<forall>s \<in> set ?ns. span_traceID s = request_trace c w"
  proof
    fix s assume "s \<in> set ?ns"
    then have "ident s \<in> set (map ident ?ns)" by simp
    with ts all have "fst (ident s) = request_trace c w"
      by (auto simp: list_all_iff)
    then show "span_traceID s = request_trace c w" by (simp add: ident_def)
  qed
  from ts show ne: "?ns \<noteq> []" by auto
  from ts ne have "ident (hd ?ns) = (request_trace c w, gen_span w (id_pos w),
             map_option spanID (active_context (inbound c)), FullPath c)"
    by (cases ?ns) auto
  then show "span_parentSpanID (hd ?ns) = map_option spanID (active_context (inbound c))"
    by (simp add: ident_def)
qed

lemma route_logs:
  assumes "r \<in> set (routes svc)"
  shows "\<forall>l \<in> set (new_logs w (snd (serve svc (snd (snd r)) c w))).
           is_std l \<or>
           (log_trace_id l = Some (TraceID_String (request_trace c w)) \<and>
            log_service_identity l = log_service svc \<and> log_request_id l = None)"
    and "\<exists>l \<in> set (new_logs w (snd (serve svc (snd (snd r)) c w))).
           log_trace_id l = Some (TraceID_String (request_trace c w))"
  using route_emits(3)[OF assms, of w c]
  by (auto simp: list_all_iff log_trace_id_def log_service_identity_def log_request_id_def)

lemma inbound_valid:
  "Extract (Header c) = Inr tc \<Longrightarrow>
   request_trace c w = traceID tc \<and> map_option spanID (active_context (inbound c)) = Some (spanID tc)"
  by (simp add: request_trace_def inbound_def active_context_def)

subsection \<open>Health and metrics routes\<close>

lemma health_response:
  "Status (fst (serve svc (health svc) c w)) = 200"
  "response_field ''status'' (fst (serve svc (health svc) c w)) = Some (JStr ''healthy'')"
  "response_field ''service'' (fst (serve svc (health svc) c w)) = Some (JStr (service_name svc))"
  by (simp_all add: serve_fst health_def c_JSON_def response_field_def json_field_def)

lemma metrics_response:
  "Status (fst (serve svc (metrics_handler svc) c w)) = 200"
  "Written (fst (serve svc (metrics_handler svc) c w)) =
     Some (TextBody (exposition (registry svc) (metrics w)))"
  by (simp_all add: serve_fst metrics_handler_def root_world_def tracer_Start_eq)

lemma type_line_exposed: "col \<in> set reg \<Longrightarrow> type_line col \<in> set (exposition reg evs)"
  by (auto simp: exposition_def family_lines_def)

lemma registered:
  "httpRequestsTotal \<in> set (registry svc)" "httpRequestDuration \<in> set (registry svc)"
  "domain_collector svc \<in> set (registry svc)"
  by (simp_all add: registry_def)

lemma health_routed:
  "(''GET'', ''/health'', health svc) \<in> set (routes svc)"
  "(''GET'', ''/metrics'', metrics_handler svc) \<in> set (routes svc)"
  by (simp_all add: routes_def)

subsection \<open>The example requests\<close>

lemma root_world_frame:
  "net (root_world c w) = net w" "net_pos (root_world c w) = net_pos w"
  "getenv (root_world c w) = getenv w" "logs (root_world c w) = logs w"
  "metrics (root_world c w) = metrics w" "clock (root_world c w) = clock w"
  by (simp_all add: root_world_def tracer_Start_eq)

lemma serve_logs:
  "logs (snd (serve svc h c w)) =
     logs (snd (h (c\<lparr>reqCtx := root_ctx c w\<rparr>) (root_world c w))) @
     [AccessLog (clock (snd (h (c\<lparr>reqCtx := root_ctx c w\<rparr>) (root_world c w))))
        (log_service svc)
        (Method (fst (h (c\<lparr>reqCtx := root_ctx c w\<rparr>) (root_world c w))))
        (Path (fst (h (c\<lparr>reqCtx := root_ctx c w\<rparr>) (root_world c w))))
        (Status (fst (h (c\<lparr>reqCtx := root_ctx c w\<rparr>) (root_world c w))))
        (clock (snd (h (c\<lparr>reqCtx := root_ctx c w\<rparr>) (root_world c w))) - clock w)
        (UserAgent (fst (h (c\<lparr>reqCtx := root_ctx c w\<rparr>) (root_world c w))))
        (ctx_TraceID_String (reqCtx (fst (h (c\<lparr>reqCtx := root_ctx c w\<rparr>) (root_world c w)))))]"
  by (simp add: serve_unfold Let_def prims root_world_frame)

lemma TraceID_String_1: "TraceID_String 1 = ''00000000000000000000000000000001''"
  by (simp add: TraceID_String_def to_hex_numeral hex_digit_def)

lemma request_trace_request1: "request_trace request1 world1 = 1"
  by (simp add: request_trace_def request1_def request0_def Extract_def header_Get_def
      world1_def world0_def)

lemma gateway_example_logs:
  "map log_trace_id (new_logs world1 (snd (serve Gateway gw_createOrder request1 world1))) =
     [None, Some ''00000000000000000000000000000001'']"
proof -
  let ?c1 = "request1\<lparr>reqCtx := root_ctx request1 world1\<rparr>"
  let ?w1 = "root_world request1 world1"
  have b: "bindMap ?c1 = Inr [(''user_id'', JInt 1), (''product'', JStr ''book'')]"
    by (simp add: request1_def request0_def)
  have o: "net ?w1 (net_pos ?w1) (orders_url (getenv ?w1)) =
     Replied 200 (Some [(''orders'', JArr []), (''total'', JInt 0)])"
    by (simp add: root_world_frame world1_def world0_def)
  have f: "call_error (net ?w1 (Suc (net_pos ?w1)) (notify_url (getenv ?w1))) =
     Some ''connection refused''"
    by (simp add: root_world_frame world1_def world0_def call_error_def call_result_def)
  have e: "logs world1 = []"
    by (simp add: world1_def world0_def)
  have "logs (snd (gw_createOrder ?c1 ?w1)) =
      logs ?w1 @ [StdLog ''Failed to send notification: connection refused'']"
    by (simp add: gw_createOrder_optional_failed(2)[OF b o f] log_Printf_def callService_frame)
  then have l: "logs (snd (gw_createOrder ?c1 ?w1)) =
      [StdLog ''Failed to send notification: connection refused'']"
    by (simp add: root_world_frame e)
  have c: "ctx_TraceID_String (reqCtx (fst (gw_createOrder ?c1 ?w1))) =
      ''00000000000000000000000000000001''"
    by (simp add: gw_createOrder_optional_failed(1)[OF b o f] c_JSON_def ctx_TraceID_String_def
        root_ctx_context request_trace_request1 TraceID_String_1)
  show ?thesis
    by (simp add: new_logs_def serve_logs l c e log_trace_id_def)
qed

lemma health_example_logs:
  "map log_request_id (new_logs world0 (snd (serve UserService (health UserService) request4 world0))) =
     [None]"
  by (simp add: new_logs_def serve_logs health_def root_world_frame log_request_id_def world0_def)

lemma hello_trace_id_world0: "hello_trace_id world0 = ''trace-0''"
  by (simp add: hello_trace_id_def world0_def hex_of_nat.simps hex_digit_def)

lemma hello_example_logs:
  "hello (request0\<lparr>reqCtx := Remote context0\<rparr>) world0 \<noteq> None \<and>
   map log_trace_id (new_logs world0 (snd (the (hello (request0\<lparr>reqCtx := Remote context0\<rparr>) world0)))) =
     [Some ''trace-0'', Some ''trace-0'']"
proof -
  have pos: "0 < clock world0" by (simp add: world0_def)
  from hello_logs_eq[OF pos, of "request0\<lparr>reqCtx := Remote context0\<rparr>"]
  show ?thesis
    by (auto simp: log_trace_id_def attr_text_def baseLogger_def hello_trace_id_world0)
qed

lemma notify_example_metrics:
  "new_metrics world0 (snd (sendNotification request3 world0)) =
     [Inc ''notifications_sent_total'' [''email'', ''failed'']]"
  by (simp add: new_metrics_def sendNotification_metrics notify_type_def notify_send_failed_def
      notificationTypes_def world0_def)

lemma middleware_example_metrics:
  "new_metrics world0 (snd (prometheusMiddleware (health OrderService) request0 world0)) =
     [Inc ''http_requests_total'' [''POST'', ''/orders'', ''200''],
      Observe ''http_request_duration_seconds'' [''POST'', ''/orders''] 0]"
  "new_metrics world0 (snd (prometheusMiddleware answer201 request0 world0)) =
     [Inc ''http_requests_total'' [''POST'', ''/orders'', ''201''],
      Observe ''http_request_duration_seconds'' [''POST'', ''/orders''] 0]"
  by (simp_all add: prometheusMiddleware_snd new_metrics_def health_def answer201_def c_JSON_def
      world0_def request0_def Itoa_def digits.simps digit_char_def)

section \<open>Label enumerations, unmatched requests and the exposition: proofs\<close>

subsection \<open>The label values of the metrics\<close>

lemma label_values_simps:
  "label_values svc ''method'' = [''GET'', ''POST'']"
  "label_values svc ''endpoint'' = map (\<lambda>r. fst (snd r)) (routes svc)"
  "label_values svc ''status_code'' = map Itoa statuses"
  "label_values svc ''operation'' = operations svc"
  "label_values svc ''service'' = [''user-service'', ''order-service'', ''notification-service'']"
  "label_values svc ''type'' = notificationTypes"
  "label_values svc ''status'' = outcomes svc"
  by (simp_all add: label_values_def)

lemmas collectors = registry_def httpRequestsTotal_def httpRequestDuration_def
  domain_collector_def userOperations_def orderOperations_def notificationsSent_def
  serviceCalls_def

lemma domain_events_all:
  "list_all (\<lambda>e. labelled svc e \<and> last (event_labels e) \<in> set (outcomes svc)) (domain_events svc)"
  by (cases svc)
     (simp_all add: labelled_def collectors event_name_def event_labels_def
      label_values_simps operations_def outcomes_def domain_events_def notificationTypes_def)

lemma domain_events_labelled:
  "e \<in> set (domain_events svc) \<Longrightarrow>
   labelled svc e \<and> last (event_labels e) \<in> set (outcomes svc)"
  using domain_events_all[of svc] by (simp add: list_all_iff)

lemma labelled_request:
  "m \<in> set [''GET'', ''POST''] \<Longrightarrow> p \<in> set (map (\<lambda>r. fst (snd r)) (routes svc)) \<Longrightarrow>
   s \<in> set (map Itoa statuses) \<Longrightarrow>
   labelled svc (Inc ''http_requests_total'' [m, p, s])"
  by (simp add: labelled_def registry_def httpRequestsTotal_def event_name_def event_labels_def
      label_values_simps)

lemma labelled_duration:
  "m \<in> set [''GET'', ''POST''] \<Longrightarrow> p \<in> set (map (\<lambda>r. fst (snd r)) (routes svc)) \<Longrightarrow>
   labelled svc (Observe ''http_request_duration_seconds'' [m, p] d)"
  by (simp add: labelled_def registry_def httpRequestsTotal_def httpRequestDuration_def
      event_name_def event_labels_def label_values_simps)

subsection \<open>Matched and unmatched requests\<close>

lemma find_route:
  "routed svc r c \<Longrightarrow>
   find (\<lambda>r. fst r = Method c \<and> fst (snd r) = FullPath c) (routes svc) = Some r"
  apply (cases svc)
  apply (simp_all add: routed_def routes_def)
  apply (elim disjE conjE; simp)+
  done

lemma handle_routed: "routed svc r c \<Longrightarrow> handle svc c w = serve svc (snd (snd r)) c w"
  by (simp add: handle_def find_route)

lemma handle_unmatched: "FullPath c = [] \<Longrightarrow> handle svc c w = serve svc noRoute c w"
  by (cases svc) (simp_all add: handle_def routes_def)

lemma Itoa_404: "Itoa 404 = ''404''"
  by (simp add: Itoa_def digits.simps digit_char_def)

lemma unmatched_metrics:
  "new_metrics w (snd (serve svc noRoute c w)) =
     [Inc ''http_requests_total'' [Method c, FullPath c, ''404''],
      Observe ''http_request_duration_seconds'' [Method c, FullPath c] 0]"
  by (simp add: serve_unfold Let_def noRoute_def prims new_metrics_def root_world_frame Itoa_404)

lemma route_methods: "r \<in> set (routes svc) \<Longrightarrow> fst r \<in> set [''GET'', ''POST'']"
  by (cases svc) (auto simp: routes_def)

lemma route_metrics:
  assumes "routed svc r c"
  shows "list_all (labelled svc) (new_metrics w (snd (serve svc (snd (snd r)) c w)))"
    and "list_all
           (\<lambda>e. event_name e \<in> set [''http_requests_total'', ''http_request_duration_seconds''] \<or>
                e \<in> set (domain_events svc) \<and> last (event_labels e) \<in> set (outcomes svc))
           (new_metrics w (snd (serve svc (snd (snd r)) c w)))"
proof -
  from assms have r: "r \<in> set (routes svc)" and m: "Method c = fst r"
    and p: "FullPath c = fst (snd r)"
    by (simp_all add: routed_def)
  from route_emits(2)[OF r, of w c] obtain es st d where
    nm: "new_metrics w (snd (serve svc (snd (snd r)) c w)) =
            es @ [Inc ''http_requests_total'' [Method c, FullPath c, Itoa st],
                  Observe ''http_request_duration_seconds'' [Method c, FullPath c] d]"
    and es: "list_all (domain_event svc) es" and st: "st \<in> set statuses"
    by auto
  from es have d: "\<forall>e \<in> set es. labelled svc e \<and> e \<in> set (domain_events svc) \<and>
      last (event_labels e) \<in> set (outcomes svc)"
    using domain_events_labelled by (auto simp: list_all_iff domain_event_def)
  have m': "Method c \<in> set [''GET'', ''POST'']"
    using route_methods[OF r] m by simp
  have p': "FullPath c \<in> set (map (\<lambda>r. fst (snd r)) (routes svc))"
    using r p by force
  have s': "Itoa st \<in> set (map Itoa statuses)"
    using st by force
  note h = labelled_request[OF m' p' s'] labelled_duration[OF m' p', of d]
  show "list_all (labelled svc) (new_metrics w (snd (serve svc (snd (snd r)) c w)))"
    using d h by (simp add: nm list_all_iff)
  show "list_all
           (\<lambda>e. event_name e \<in> set [''http_requests_total'', ''http_request_duration_seconds''] \<or>
                e \<in> set (domain_events svc) \<and> last (event_labels e) \<in> set (outcomes svc))
           (new_metrics w (snd (serve svc (snd (snd r)) c w)))"
    using d by (simp add: nm list_all_iff event_name_def)
qed

lemma purge_not_labelled:
  "\<not> labelled UserService (Inc ''http_requests_total'' [''PURGE'', [], ''404''])"
  by (simp add: labelled_def collectors label_values_simps event_labels_def event_name_def)

subsection \<open>The health and metrics routes through the router\<close>

lemma handle_health:
  "Method c = ''GET'' \<Longrightarrow> FullPath c = ''/health'' \<Longrightarrow> handle svc c w = serve svc (health svc) c w"
  using handle_routed[of svc "(''GET'', ''/health'', health svc)" c w]
  by (simp add: routed_def health_routed)

lemma handle_metrics:
  "Method c = ''GET'' \<Longrightarrow> FullPath c = ''/metrics'' \<Longrightarrow>
   handle svc c w = serve svc (metrics_handler svc) c w"
  using handle_routed[of svc "(''GET'', ''/metrics'', metrics_handler svc)" c w]
  by (simp add: routed_def health_routed)

lemma health_body:
  "Written (fst (serve svc (health svc) c w)) =
     Some (JsonBody (JObj [(''status'', JStr ''healthy''), (''service'', JStr (service_name svc))]))"
  by (simp add: serve_fst health_def c_JSON_def)

lemma registry_content:
  "map (\<lambda>col. (col_name col, col_kind col, col_labels col)) (registry svc) =
     [(''http_requests_total'', Counter, [''method'', ''endpoint'', ''status_code'']),
      (''http_request_duration_seconds'', Histogram, [''method'', ''endpoint'']),
      (case svc of
         Gateway \<Rightarrow> (''service_calls_total'', Counter, [''service'', ''status''])
       | UserService \<Rightarrow> (''user_operations_total'', Counter, [''operation'', ''status''])
       | OrderService \<Rightarrow> (''order_operations_total'', Counter, [''operation'', ''status''])
       | NotificationService \<Rightarrow> (''notifications_sent_total'', Counter, [''type'', ''status'']))]"
  by (cases svc) (simp_all add: collectors)

lemma type_lines_family:
  assumes "7 \<le> length (col_name col)" and "take 7 (col_name col) \<noteq> ''# TYPE ''"
  shows "filter (\<lambda>l. take 7 l = ''# TYPE '') (family_lines evs col) = [type_line col]"
proof -
  have "\<And>ls. filter (\<lambda>l. take 7 l = ''# TYPE '') (sample_lines col evs ls) = []"
    using assms by (simp add: sample_lines_def Let_def split: metric_kind.splits)
  then have "filter (\<lambda>l. take 7 l = ''# TYPE '') (concat (map (sample_lines col evs) lss)) = []" for lss
    by (induction lss) simp_all
  then show ?thesis
    by (simp add: family_lines_def type_line_def)
qed

lemma type_lines:
  "filter (\<lambda>l. take 7 l = ''# TYPE '') (exposition (registry svc) evs) =
     [''# TYPE http_requests_total counter'',
      ''# TYPE http_request_duration_seconds histogram'',
      (case svc of
         Gateway \<Rightarrow> ''# TYPE service_calls_total counter''
       | UserService \<Rightarrow> ''# TYPE user_operations_total counter''
       | OrderService \<Rightarrow> ''# TYPE order_operations_total counter''
       | NotificationService \<Rightarrow> ''# TYPE notifications_sent_total counter'')]"
proof -
  have a: "filter (\<lambda>l. take 7 l = ''# TYPE '') (family_lines evs httpRequestsTotal) =
      [type_line httpRequestsTotal]"
    by (rule type_lines_family) (simp_all add: httpRequestsTotal_def)
  have b: "filter (\<lambda>l. take 7 l = ''# TYPE '') (family_lines evs httpRequestDuration) =
      [type_line httpRequestDuration]"
    by (rule type_lines_family) (simp_all add: httpRequestDuration_def)
  have c: "filter (\<lambda>l. take 7 l = ''# TYPE '') (family_lines evs (domain_collector svc)) =
      [type_line (domain_collector svc)]"
    by (rule type_lines_family; cases svc)
       (simp_all add: domain_collector_def userOperations_def orderOperations_def
         notificationsSent_def serviceCalls_def)
  have "filter (\<lambda>l. take 7 l = ''# TYPE '') (exposition (registry svc) evs) =
      [type_line httpRequestsTotal, type_line httpRequestDuration, type_line (domain_collector svc)]"
    by (simp add: exposition_def registry_def a b c)
  then show ?thesis
    by (cases svc) (simp_all add: type_line_def kind_text_def collectors)
qed

lemma samples_exposed:
  assumes "col \<in> set reg" and "e \<in> set evs" and "event_name e = col_name col"
  shows "set (sample_lines col evs (event_labels e)) \<subseteq> set (exposition reg evs)"
proof -
  have "event_labels e \<in> set (remdups (map event_labels (filter (\<lambda>e. event_name e = col_name col) evs)))"
    using assms(2,3) by auto
  then have "set (sample_lines col evs (event_labels e)) \<subseteq> set (family_lines evs col)"
    by (auto simp: family_lines_def)
  with assms(1) show ?thesis
    by (auto simp: exposition_def)
qed

lemma metrics_example:
  "exposition (registry UserService) (metrics world4) =
     [''# HELP http_requests_total Total number of HTTP requests'',
      ''# TYPE http_requests_total counter'',
      ''http_requests_total{method='' @ [CHR 0x22] @ ''GET'' @ [CHR 0x22] @ '',endpoint='' @
        [CHR 0x22] @ ''/users/:id'' @ [CHR 0x22] @ '',status_code='' @ [CHR 0x22] @ ''200'' @
        [CHR 0x22] @ ''} 1'',
      ''http_requests_total{method='' @ [CHR 0x22] @ ''GET'' @ [CHR 0x22] @ '',endpoint='' @
        [CHR 0x22] @ ''/users/:id'' @ [CHR 0x22] @ '',status_code='' @ [CHR 0x22] @ ''404'' @
        [CHR 0x22] @ ''} 1'',
      ''# HELP http_request_duration_seconds Duration of HTTP requests in seconds'',
      ''# TYPE http_request_duration_seconds histogram'',
      ''http_request_duration_seconds_sum{method='' @ [CHR 0x22] @ ''GET'' @ [CHR 0x22] @
        '',endpoint='' @ [CHR 0x22] @ ''/users/:id'' @ [CHR 0x22] @ ''} 400000000'',
      ''http_request_duration_seconds_count{method='' @ [CHR 0x22] @ ''GET'' @ [CHR 0x22] @
        '',endpoint='' @ [CHR 0x22] @ ''/users/:id'' @ [CHR 0x22] @ ''} 2'',
      ''# HELP user_operations_total Total number of user operations'',
      ''# TYPE user_operations_total counter'',
      ''user_operations_total{operation='' @ [CHR 0x22] @ ''get_user'' @ [CHR 0x22] @
        '',status='' @ [CHR 0x22] @ ''success'' @ [CHR 0x22] @ ''} 1'',
      ''user_operations_total{operation='' @ [CHR 0x22] @ ''get_user'' @ [CHR 0x22] @
        '',status='' @ [CHR 0x22] @ ''not_found'' @ [CHR 0x22] @ ''} 1'']"
  by (simp add: exposition_def family_lines_def sample_lines_def type_line_def kind_text_def
      label_text_def collectors world4_def world0_def event_name_def event_labels_def
      event_value_def Itoa_def digits.simps digit_char_def)

section \<open>The claims\<close>

text \<open>
  C9. In the order service's \<open>createOrder\<close> the call to the user service is meant to
  verify that the user exists, and a failed validation is to be answered 400 with the
  order store unchanged. The handler does so only when the call itself returns an error:
  with the connection refused, the request for user 999 is answered 400 and the store is
  as before. When the user service answers 404 \<open>User not found\<close>, the reply is decoded
  and returned without an error (the status code is never read): the same request is
  answered 201 with the error object under \<open>user\<close>, an order for user 999 is appended and
  \<open>nextOrderID\<close> goes from 3 to 4.
\<close>

theorem createOrder_unknown_user_creates_order:
  "bindOrderReq request6 = Inr (orderReq0\<lparr>oreq_UserID := 999\<rparr>) \<and>
   orders world0 = [] \<and> nextOrderID world0 = 3 \<and>
   net world0 (net_pos world0) (user_service_url (getenv world0) 999) =
     DoFailed ''connection refused'' \<and>
   Status (fst (createOrder request6 world0)) = 400 \<and>
   orders (snd (createOrder request6 world0)) = [] \<and>
   nextOrderID (snd (createOrder request6 world0)) = 3 \<and>
   orders world2 = [] \<and> nextOrderID world2 = 3 \<and>
   net world2 (net_pos world2) (user_service_url (getenv world2) 999) =
     Replied 404 (Some [(''error'', JStr ''User not found'')]) \<and>
   Status (fst (createOrder request6 world2)) = 201 \<and>
   response_field ''user'' (fst (createOrder request6 world2)) =
     Some (JObj [(''error'', JStr ''User not found'')]) \<and>
   map order_UserID (orders (snd (createOrder request6 world2))) = [999] \<and>
   nextOrderID (snd (createOrder request6 world2)) = 4"
proof -
  have b: "bindOrderReq request6 = Inr (orderReq0\<lparr>oreq_UserID := 999\<rparr>)"
    by (simp add: request6_def request0_def)
  have f: "call_error (net world0 (net_pos world0)
      (user_service_url (getenv world0) (oreq_UserID (orderReq0\<lparr>oreq_UserID := 999\<rparr>)))) =
     Some ''connection refused''"
    by (simp add: world0_def call_error_def call_result_def)
  have n: "net world2 (net_pos world2)
      (user_service_url (getenv world2) (oreq_UserID (orderReq0\<lparr>oreq_UserID := 999\<rparr>))) =
     Replied 404 (Some [(''error'', JStr ''User not found'')])"
    by (simp add: world2_def)
  show ?thesis
    using createOrder_validation_failed[OF b f] createOrder_replied[OF b n] n
    by (simp add: b map_json_def) (simp add: world2_def world0_def)
qed


text \<open>
  C10. Every request to the notification service's \<open>GET /notify\<close> is answered with status
  200 and a body whose \<open>status\<close> field is \<open>sent\<close>, also when the simulated send fails.
  The response does not depend on the draw that decides the failure (replacing that draw
  by any \<open>x\<close> gives the same response); the failure shows in the metric
  \<open>notifications_sent_total\<close>, labelled \<open>failed\<close>, and in the error recorded on the one
  child span of the request.
\<close>

theorem sendNotification_answers_sent:
  "Status (fst (sendNotification c w)) = 200 \<and>
   response_field ''status'' (fst (sendNotification c w)) = Some (JStr ''sent'') \<and>
   fst (sendNotification c (w\<lparr>rng := (rng w)(rng_pos w + 2 := x)\<rparr>)) = fst (sendNotification c w) \<and>
   new_metrics w (snd (sendNotification c w)) =
     [Inc ''notifications_sent_total''
        [notify_type w, if notify_send_failed w then ''failed'' else ''success'']] \<and>
   (\<exists>s. new_spans w (snd (sendNotification c w)) = [s] \<and>
        span_errors s = (if notify_send_failed w then [''notification sending failed''] else []))"
proof -
  have "Status (fst (sendNotification c w)) = 200"
    by (simp add: sendNotification_response c_JSON_def)
  moreover have "response_field ''status'' (fst (sendNotification c w)) = Some (JStr ''sent'')"
    by (simp add: sendNotification_response c_JSON_def response_field_def json_field_def
        Notification_json_def)
  moreover have "new_metrics w (snd (sendNotification c w)) =
     [Inc ''notifications_sent_total''
        [notify_type w, if notify_send_failed w then ''failed'' else ''success'']]"
    by (simp add: new_metrics_def sendNotification_metrics)
  moreover obtain s where "new_spans w (snd (sendNotification c w)) = [s]"
    "span_errors s = (if notify_send_failed w then [''notification sending failed''] else [])"
    using sendNotification_new_spans by blast
  ultimately show ?thesis
    using sendNotification_blind by blast
qed

text \<open>
  C4, as the claim states it, fails: with the order hop answered and the notification
  hop refused, the \<open>notification\<close> field of the response is \<open>null\<close>, not \<open>failed\<close>.
\<close>

theorem gw_createOrder_notification_flag_counterexample:
  "net world1 (net_pos world1) (orders_url (getenv world1)) =
     Replied 200 (Some [(''orders'', JArr []), (''total'', JInt 0)]) \<and>
   call_error (net world1 (Suc (net_pos world1)) (notify_url (getenv world1))) =
     Some ''connection refused'' \<and>
   Status (fst (gw_createOrder request1 world1)) = 200 \<and>
   response_field ''notification'' (fst (gw_createOrder request1 world1)) = Some JNull \<and>
   response_field ''notification'' (fst (gw_createOrder request1 world1)) \<noteq> Some (JStr ''failed'')"
proof -
  have b: "bindMap request1 = Inr [(''user_id'', JInt 1), (''product'', JStr ''book'')]"
    by (simp add: request1_def request0_def)
  have o: "net world1 (net_pos world1) (orders_url (getenv world1)) =
     Replied 200 (Some [(''orders'', JArr []), (''total'', JInt 0)])"
    by (simp add: world1_def world0_def)
  have f: "call_error (net world1 (Suc (net_pos world1)) (notify_url (getenv world1))) =
     Some ''connection refused''"
    by (simp add: world1_def world0_def call_error_def call_result_def)
  show ?thesis
    using gw_optional_failed_summary(1,2)[OF b o f] o f
    by (simp add: response_field_def json_field_def)
qed

text \<open>
  C4, amended. When the order hop is answered (whatever its status code) and the
  notification hop fails (the call returns an error), the response has status 200 and
  is the object of the order hop's result under \<open>order\<close> and \<open>null\<close> under
  \<open>notification\<close>; the failure is written to the standard log, and both hops were made.
\<close>

theorem gw_createOrder_optional_hop_failure:
  assumes "bindMap c = Inr m"
    and "net w (net_pos w) (orders_url (getenv w)) = Replied code order"
    and "call_error (net w (Suc (net_pos w)) (notify_url (getenv w))) = Some e"
  shows "Status (fst (gw_createOrder c w)) = 200 \<and>
         Written (fst (gw_createOrder c w)) =
           Some (JsonBody (JObj [(''order'', map_json order), (''notification'', JNull)])) \<and>
         new_logs w (snd (gw_createOrder c w)) = [StdLog (''Failed to send notification: '' @ e)] \<and>
         map span_name (new_spans w (snd (gw_createOrder c w))) =
           [''call-order-service'', ''call-notification-service'']"
  using gw_optional_failed_summary[OF assms] by simp

theorem gw_createOrder_optional_hop_failure_witness:
  "bindMap request1 = Inr [(''user_id'', JInt 1), (''product'', JStr ''book'')] \<and>
   net world1 (net_pos world1) (orders_url (getenv world1)) =
     Replied 200 (Some [(''orders'', JArr []), (''total'', JInt 0)]) \<and>
   call_error (net world1 (Suc (net_pos world1)) (notify_url (getenv world1))) =
     Some ''connection refused'' \<and>
   Status (fst (gw_createOrder request1 world1)) = 200 \<and>
   Written (fst (gw_createOrder request1 world1)) =
     Some (JsonBody (JObj [(''order'', JObj [(''orders'', JArr []), (''total'', JInt 0)]),
                           (''notification'', JNull)])) \<and>
   new_logs world1 (snd (gw_createOrder request1 world1)) =
     [StdLog ''Failed to send notification: connection refused'']"
proof -
  have b: "bindMap request1 = Inr [(''user_id'', JInt 1), (''product'', JStr ''book'')]"
    by (simp add: request1_def request0_def)
  have o: "net world1 (net_pos world1) (orders_url (getenv world1)) =
     Replied 200 (Some [(''orders'', JArr []), (''total'', JInt 0)])"
    by (simp add: world1_def world0_def)
  have f: "call_error (net world1 (Suc (net_pos world1)) (notify_url (getenv world1))) =
     Some ''connection refused''"
    by (simp add: world1_def world0_def call_error_def call_result_def)
  show ?thesis
    using gw_createOrder_optional_hop_failure[OF b o f] b o f
    by (simp add: map_json_def)
qed

text \<open>
  C2. For every trace context (trace id, span id, sampling flag) and every carrier,
  extracting from the carrier after injecting the context into it gives back that
  context: the same trace id, span id and sampling flag.
\<close>

theorem Extract_after_Inject:
  "Extract (Inject ctx carrier) = Inr ctx"
  by (rule Extract_Inject)

text \<open>
  C1, as the claim states it, fails: the gateway, handling a create-order request whose
  notification hop is refused, writes two log records, and the first (the line of the
  standard logger) carries no trace id.
\<close>

theorem gateway_log_without_trace_counterexample:
  "routed Gateway (''POST'', ''/api/v1/orders'', gw_createOrder) request1 \<and>
   map log_trace_id (new_logs world1 (snd (serve Gateway gw_createOrder request1 world1))) =
     [None, Some ''00000000000000000000000000000001'']"
  using gateway_example_logs
  by (simp add: routed_def routes_def request1_def request0_def)

text \<open>
  C1, amended. For every request a service (gateway, user, order or notification
  service) handles on a registered route, every span created during the handling (the
  root span and the child spans started from the request context) belongs to one trace,
  and the access-log record of the request (every log record other than a line of the
  standard logger) carries that trace id; there is such a record. When the request
  arrives with a well-formed propagation header, that trace id is the header's and the
  parent span id of the root span (the first span created) is the header's span id.
\<close>

theorem request_signals_share_trace:
  assumes "routed svc r c"
  shows "(\<forall>s \<in> set (new_spans w (snd (serve svc (snd (snd r)) c w))).
            span_traceID s = request_trace c w) \<and>
         (\<forall>l \<in> set (new_logs w (snd (serve svc (snd (snd r)) c w))).
            is_std l \<or> log_trace_id l = Some (TraceID_String (request_trace c w))) \<and>
         (\<exists>l \<in> set (new_logs w (snd (serve svc (snd (snd r)) c w))).
            log_trace_id l = Some (TraceID_String (request_trace c w))) \<and>
         (\<forall>tc. Extract (Header c) = Inr tc \<longrightarrow>
            request_trace c w = traceID tc \<and>
            span_parentSpanID (hd (new_spans w (snd (serve svc (snd (snd r)) c w)))) =
              Some (spanID tc))"
proof -
  from assms have r: "r \<in> set (routes svc)"
    by (simp add: routed_def)
  show ?thesis
    using route_one_trace(1,3)[OF r, of w c] route_logs[OF r, of w c] inbound_valid[of c _ w]
    by auto
qed

theorem request_signals_share_trace_witness:
  "routed Gateway (''POST'', ''/api/v1/orders'', gw_createOrder) request2 \<and>
   Extract (Header request2) = Inr context0 \<and>
   list_all (\<lambda>s. span_traceID s = 0x4bf92f3577b34da6a3ce929d0e0e4736)
     (new_spans world1 (snd (serve Gateway gw_createOrder request2 world1))) \<and>
   (\<exists>l \<in> set (new_logs world1 (snd (serve Gateway gw_createOrder request2 world1))).
      log_trace_id l = Some ''4bf92f3577b34da6a3ce929d0e0e4736'') \<and>
   span_parentSpanID (hd (new_spans world1 (snd (serve Gateway gw_createOrder request2 world1)))) =
     Some 0x00f067aa0ba902b7"
proof -
  have r: "routed Gateway (''POST'', ''/api/v1/orders'', gw_createOrder) request2"
    by (simp add: routed_def routes_def request2_def request1_def request0_def)
  have t: "request_trace request2 world1 = traceID context0"
    by (simp add: request_trace_def Extract_request2)
  show ?thesis
    using request_signals_share_trace[OF r, of world1] r Extract_request2 TraceID_String_context0
    by (simp add: t list_all_iff) (simp add: context0_def)
qed

text \<open>
  C5, as the claim states it, fails: the third label of the request counter is the
  status code in decimal, not a status class. Two answers of one class (200 and 201)
  are counted under different label values.
\<close>

theorem status_label_not_a_class_counterexample:
  "new_metrics world0 (snd (prometheusMiddleware (health OrderService) request0 world0)) =
     [Inc ''http_requests_total'' [''POST'', ''/orders'', ''200''],
      Observe ''http_request_duration_seconds'' [''POST'', ''/orders''] 0] \<and>
   new_metrics world0 (snd (prometheusMiddleware answer201 request0 world0)) =
     [Inc ''http_requests_total'' [''POST'', ''/orders'', ''201''],
      Observe ''http_request_duration_seconds'' [''POST'', ''/orders''] 0] \<and>
   (200 :: int) div 100 = 201 div 100"
  using middleware_example_metrics by simp

text \<open>
  C5, amended. For every request and every wrapped chain \<open>next\<close>, when the chain has
  returned the metric middleware leaves the response as the chain made it and adds to
  the metrics exactly one increment of \<open>http_requests_total\<close>, labelled with the method,
  the route template and the status code in decimal, and exactly one observation of
  \<open>http_request_duration_seconds\<close>, labelled with the method and the route template,
  of the time from the entry of the middleware to the return of the chain.
\<close>

theorem prometheusMiddleware_records_once:
  "fst (prometheusMiddleware next c w) = fst (next c w) \<and>
   metrics (snd (prometheusMiddleware next c w)) =
     metrics (snd (next c w)) @
     [Inc ''http_requests_total''
        [Method (fst (next c w)), FullPath (fst (next c w)), Itoa (Status (fst (next c w)))],
      Observe ''http_request_duration_seconds''
        [Method (fst (next c w)), FullPath (fst (next c w))]
        (clock (snd (next c w)) - clock w)]"
  by (simp add: prometheusMiddleware_fst prometheusMiddleware_snd)

text \<open>
  C7, as the claim states it, fails. In the logging demo application a request whose
  context carries the trace \<open>4bf9...4736\<close> is logged under the generated trace id
  \<open>trace-0\<close>: the id is not taken from the context. In the traced services the
  access-log record of a request has no request id.
\<close>

theorem log_fields_counterexample:
  "hello (request0\<lparr>reqCtx := Remote context0\<rparr>) world0 \<noteq> None \<and>
   map log_trace_id
     (new_logs world0 (snd (the (hello (request0\<lparr>reqCtx := Remote context0\<rparr>) world0)))) =
     [Some ''trace-0'', Some ''trace-0''] \<and>
   TraceID_String (traceID context0) = ''4bf92f3577b34da6a3ce929d0e0e4736'' \<and>
   map log_request_id
     (new_logs world0 (snd (serve UserService (health UserService) request4 world0))) = [None]"
  using hello_example_logs TraceID_String_context0 health_example_logs by simp

text \<open>
  C7, amended. In the logging demo application, whenever the clock is positive the
  \<open>/hello\<close> handler returns and writes two log records, and both carry the same trace
  id, the same request id and the static service name and version: the trace id is the
  one \<open>getMockTraceID\<close> generates for the request (the context is not read), the request
  id is the \<open>X-Request-ID\<close> header when it is present and is generated once otherwise.
  In the traced services, for a request on a registered route every log record other
  than a line of the standard logger carries the trace id read from the context of the
  request and the service field of the service's format string (none in the gateway),
  and no request id.
\<close>

theorem request_logs_carry_identity:
  assumes "0 < clock w" and "routed svc rt c"
  shows "hello r w \<noteq> None \<and>
         length (new_logs w (snd (the (hello r w)))) = 2 \<and>
         (\<forall>l \<in> set (new_logs w (snd (the (hello r w)))).
            log_trace_id l = Some (hello_trace_id w) \<and>
            log_request_id l = Some (hello_request_id r w) \<and>
            log_service_identity l = Some serviceName \<and>
            log_service_version l = Some serviceVersion) \<and>
         (\<forall>l \<in> set (new_logs v (snd (serve svc (snd (snd rt)) c v))).
            is_std l \<or>
            (log_trace_id l = Some (TraceID_String (request_trace c v)) \<and>
             log_service_identity l = log_service svc \<and> log_request_id l = None))"
proof -
  from hello_logs_eq[OF assms(1), of r] obtain r' w' where h: "hello r w = Some (r', w')"
    by auto
  from assms(2) have rt: "rt \<in> set (routes svc)"
    by (simp add: routed_def)
  show ?thesis
    using hello_logs[OF h] route_logs(1)[OF rt, of v c] by (simp add: h)
qed

theorem request_logs_carry_identity_witness:
  "0 < clock world0 \<and>
   routed UserService (''GET'', ''/health'', health UserService) request4 \<and>
   hello request0 world0 \<noteq> None \<and>
   length (new_logs world0 (snd (the (hello request0 world0)))) = 2 \<and>
   list_all
     (\<lambda>l. log_trace_id l = Some ''trace-0'' \<and>
          log_service_identity l = Some ''my-go-filebeat-app'')
     (new_logs world0 (snd (the (hello request0 world0)))) \<and>
   list_all
     (\<lambda>l. is_std l \<or>
          (log_trace_id l = Some (TraceID_String (request_trace request4 world0)) \<and>
           log_service_identity l = Some ''user-service'' \<and> log_request_id l = None))
     (new_logs world0 (snd (serve UserService (health UserService) request4 world0)))"
proof -
  have p: "0 < clock world0"
    by (simp add: world0_def)
  have r: "routed UserService (''GET'', ''/health'', health UserService) request4"
    by (simp add: routed_def routes_def request4_def request0_def)
  show ?thesis
    using request_logs_carry_identity[OF p r, of request0 world0] p r
    by (simp add: hello_trace_id_world0 serviceName_def log_service_def service_name_def
        list_all_iff)
qed

text \<open>
  C6, as the claim states it, fails twice. A notification whose simulated send fails is
  counted under the outcome \<open>failed\<close>, which is not in the enumeration \<open>success\<close>,
  \<open>error\<close>, \<open>not_found\<close>. And a request that matches no route still passes the metric
  middleware, which records the method exactly as the client sent it: a \<open>PURGE\<close> request
  to the user service is counted under the method \<open>PURGE\<close>, the empty endpoint and the
  status code 404, outside the enumerations of its labels.
\<close>

theorem metric_label_counterexample:
  "new_metrics world0 (snd (sendNotification request3 world0)) =
     [Inc ''notifications_sent_total'' [''email'', ''failed'']] \<and>
   ''failed'' \<notin> set outcome_enum \<and>
   FullPath request5 = [] \<and>
   new_metrics world0 (snd (handle UserService request5 world0)) =
     [Inc ''http_requests_total'' [''PURGE'', [], ''404''],
      Observe ''http_request_duration_seconds'' [''PURGE'', []] 0] \<and>
   \<not> labelled UserService (Inc ''http_requests_total'' [''PURGE'', [], ''404''])"
proof -
  have u: "FullPath request5 = []"
    by (simp add: request5_def)
  show ?thesis
    using notify_example_metrics purge_not_labelled
    by (simp add: outcome_enum_def handle_unmatched[OF u] unmatched_metrics)
       (simp add: request5_def request0_def)
qed

text \<open>
  C6, amended. For every request a service handles on a registered route, every metric
  recorded is a call on a collector registered in the service whose label values are each
  drawn from the enumeration of its label (method: \<open>GET\<close>, \<open>POST\<close>; endpoint: the route
  templates of the service; status code: the codes the handlers write; operation, service
  and notification type: the literals of the code; outcome: \<open>success\<close>, \<open>error\<close> for the
  gateway's service calls, \<open>success\<close>, \<open>error\<close>, \<open>not_found\<close> for user and order
  operations, \<open>success\<close>, \<open>failed\<close> for notifications), and every metric other than the two
  of the metric middleware is one of the calls listed for the domain counter of the
  service. For every request that matches no route, exactly the two metrics of the metric
  middleware are recorded, with the method of the request as the client sent it, the
  empty endpoint and the status code 404: the method label of such a request is not
  bounded by an enumeration.
\<close>

theorem metric_labels_enumerated:
  assumes "routed svc r c" and "FullPath c' = []"
  shows "list_all (labelled svc) (new_metrics w (snd (handle svc c w))) \<and>
         list_all
           (\<lambda>e. event_name e \<in> set [''http_requests_total'', ''http_request_duration_seconds''] \<or>
                e \<in> set (domain_events svc) \<and> last (event_labels e) \<in> set (outcomes svc))
           (new_metrics w (snd (handle svc c w))) \<and>
         new_metrics w' (snd (handle svc' c' w')) =
           [Inc ''http_requests_total'' [Method c', [], ''404''],
            Observe ''http_request_duration_seconds'' [Method c', []] 0]"
  using route_metrics[OF assms(1), of w] unmatched_metrics[of w' svc' c']
  by (simp add: handle_routed[OF assms(1)] handle_unmatched[OF assms(2)] assms(2))

theorem metric_labels_enumerated_witness:
  "routed NotificationService (''GET'', ''/notify'', sendNotification) request3 \<and>
   FullPath request5 = [] \<and>
   list_all (labelled NotificationService)
     (new_metrics world0 (snd (handle NotificationService request3 world0))) \<and>
   list_all
     (\<lambda>e. event_name e \<in> set [''http_requests_total'', ''http_request_duration_seconds''] \<or>
          e \<in> set (domain_events NotificationService) \<and>
          last (event_labels e) \<in> set [''success'', ''failed''])
     (new_metrics world0 (snd (handle NotificationService request3 world0))) \<and>
   new_metrics world0 (snd (handle OrderService request5 world0)) =
     [Inc ''http_requests_total'' [''PURGE'', [], ''404''],
      Observe ''http_request_duration_seconds'' [''PURGE'', []] 0]"
proof -
  have r: "routed NotificationService (''GET'', ''/notify'', sendNotification) request3"
    by (simp add: routed_def routes_def request3_def request0_def)
  have u: "FullPath request5 = []"
    by (simp add: request5_def)
  have m: "Method request5 = ''PURGE''"
    by (simp add: request5_def request0_def)
  show ?thesis
    using metric_labels_enumerated[OF r u, of world0 world0 OrderService] r u
    by (simp add: m outcomes_def)
qed

text \<open>
  C8. For every service, a \<open>GET /health\<close> request is answered 200 with the object of
  the fields \<open>status\<close> (\<open>healthy\<close>) and \<open>service\<close>, the name of the service. The registry
  of the service holds the request counter, the duration histogram and the domain counter
  of the service, and a \<open>GET /metrics\<close> request is answered 200 with a text whose \<open>TYPE\<close>
  lines are those of these three collectors and which holds, for every metric call
  recorded so far on a registered collector, the sample lines of the label values of the
  call.
\<close>

theorem health_and_metrics_routes:
  assumes "Method c = ''GET''" and "FullPath c = ''/health''"
    and "Method c' = ''GET''" and "FullPath c' = ''/metrics''"
  shows "Status (fst (handle svc c w)) = 200 \<and>
         Written (fst (handle svc c w)) =
           Some (JsonBody (JObj
             [(''status'', JStr ''healthy''),
              (''service'', JStr (case svc of
                  Gateway \<Rightarrow> ''api-gateway'' | UserService \<Rightarrow> ''user-service''
                | OrderService \<Rightarrow> ''order-service''
                | NotificationService \<Rightarrow> ''notification-service''))])) \<and>
         map (\<lambda>col. (col_name col, col_kind col, col_labels col)) (registry svc) =
           [(''http_requests_total'', Counter, [''method'', ''endpoint'', ''status_code'']),
            (''http_request_duration_seconds'', Histogram, [''method'', ''endpoint'']),
            (case svc of
               Gateway \<Rightarrow> (''service_calls_total'', Counter, [''service'', ''status''])
             | UserService \<Rightarrow> (''user_operations_total'', Counter, [''operation'', ''status''])
             | OrderService \<Rightarrow> (''order_operations_total'', Counter, [''operation'', ''status''])
             | NotificationService \<Rightarrow>
                 (''notifications_sent_total'', Counter, [''type'', ''status'']))] \<and>
         Status (fst (handle svc c' w)) = 200 \<and>
         (\<exists>lines.
            Written (fst (handle svc c' w)) = Some (TextBody lines) \<and>
            filter (\<lambda>l. take 7 l = ''# TYPE '') lines =
              [''# TYPE http_requests_total counter'',
               ''# TYPE http_request_duration_seconds histogram'',
               (case svc of
                  Gateway \<Rightarrow> ''# TYPE service_calls_total counter''
                | UserService \<Rightarrow> ''# TYPE user_operations_total counter''
                | OrderService \<Rightarrow> ''# TYPE order_operations_total counter''
                | NotificationService \<Rightarrow> ''# TYPE notifications_sent_total counter'')] \<and>
            (\<forall>col \<in> set (registry svc). \<forall>e \<in> set (metrics w).
               event_name e = col_name col \<longrightarrow>
               set (sample_lines col (metrics w) (event_labels e)) \<subseteq> set lines))"
proof -
  have h: "handle svc c w = serve svc (health svc) c w"
    by (rule handle_health[OF assms(1,2)])
  have m: "handle svc c' w = serve svc (metrics_handler svc) c' w"
    by (rule handle_metrics[OF assms(3,4)])
  have n: "service_name svc =
      (case svc of Gateway \<Rightarrow> ''api-gateway'' | UserService \<Rightarrow> ''user-service''
       | OrderService \<Rightarrow> ''order-service'' | NotificationService \<Rightarrow> ''notification-service'')"
    by (simp add: service_name_def)
  have s: "\<forall>col \<in> set (registry svc). \<forall>e \<in> set (metrics w).
      event_name e = col_name col \<longrightarrow>
      set (sample_lines col (metrics w) (event_labels e)) \<subseteq>
        set (exposition (registry svc) (metrics w))"
    using samples_exposed by blast
  show ?thesis
    unfolding h m
    using health_response(1)[of svc c w] health_body[of svc c w] metrics_response[of svc c' w]
      registry_content[of svc] type_lines[of svc "metrics w"] s
    by (simp only: n) simp
qed

theorem health_and_metrics_routes_witness:
  "Method request4 = ''GET'' \<and> FullPath request4 = ''/health'' \<and>
   Method request7 = ''GET'' \<and> FullPath request7 = ''/metrics'' \<and>
   Written (fst (handle UserService request4 world4)) =
     Some (JsonBody (JObj [(''status'', JStr ''healthy''), (''service'', JStr ''user-service'')])) \<and>
   Written (fst (handle UserService request7 world4)) =
     Some (TextBody
       [''# HELP http_requests_total Total number of HTTP requests'',
        ''# TYPE http_requests_total counter'',
        ''http_requests_total{method='' @ [CHR 0x22] @ ''GET'' @ [CHR 0x22] @ '',endpoint='' @
          [CHR 0x22] @ ''/users/:id'' @ [CHR 0x22] @ '',status_code='' @ [CHR 0x22] @ ''200'' @
          [CHR 0x22] @ ''} 1'',
        ''http_requests_total{method='' @ [CHR 0x22] @ ''GET'' @ [CHR 0x22] @ '',endpoint='' @
          [CHR 0x22] @ ''/users/:id'' @ [CHR 0x22] @ '',status_code='' @ [CHR 0x22] @ ''404'' @
          [CHR 0x22] @ ''} 1'',
        ''# HELP http_request_duration_seconds Duration of HTTP requests in seconds'',
        ''# TYPE http_request_duration_seconds histogram'',
        ''http_request_duration_seconds_sum{method='' @ [CHR 0x22] @ ''GET'' @ [CHR 0x22] @
          '',endpoint='' @ [CHR 0x22] @ ''/users/:id'' @ [CHR 0x22] @ ''} 400000000'',
        ''http_request_duration_seconds_count{method='' @ [CHR 0x22] @ ''GET'' @ [CHR 0x22] @
          '',endpoint='' @ [CHR 0x22] @ ''/users/:id'' @ [CHR 0x22] @ ''} 2'',
        ''# HELP user_operations_total Total number of user operations'',
        ''# TYPE user_operations_total counter'',
        ''user_operations_total{operation='' @ [CHR 0x22] @ ''get_user'' @ [CHR 0x22] @
          '',status='' @ [CHR 0x22] @ ''success'' @ [CHR 0x22] @ ''} 1'',
        ''user_operations_total{operation='' @ [CHR 0x22] @ ''get_user'' @ [CHR 0x22] @
          '',status='' @ [CHR 0x22] @ ''not_found'' @ [CHR 0x22] @ ''} 1''])"
proof -
  have a: "Method request4 = ''GET''" and b: "FullPath request4 = ''/health''"
    by (simp_all add: request4_def request0_def)
  have c: "Method request7 = ''GET''" and d: "FullPath request7 = ''/metrics''"
    by (simp_all add: request7_def request0_def)
  have e: "Written (fst (handle UserService request7 world4)) =
      Some (TextBody (exposition (registry UserService) (metrics world4)))"
    by (simp add: handle_metrics[OF c d] metrics_response)
  show ?thesis
    using health_and_metrics_routes[OF a b c d, of UserService world4] a b c d
    by (simp only: e metrics_example) simp
qed

end
